theory Spec2Isabelle
  imports Complex_Main
begin

section \<open>Numbers and exceptions of the Python source\<close>

text \<open>
  The program (\<^verbatim>\<open>main.py\<close>) computes with Python floats. They are modelled as HOL
  reals where a function returns a float: there the arithmetic is exact, and the source
  computes the same expressions on doubles, so that its values, and the comparisons it
  makes on them, are those of the model up to rounding. The prism-layer count is an
  integer taken from a rounded quotient, so that function is modelled in IEEE double
  arithmetic, with rounding, overflow to infinity and NaN (section
  \<open>Double arithmetic\<close>). Every comparison, guard and \<^verbatim>\<open>raise\<close> of the source is kept
  as a branch.

  An exception is a value of type \<open>error\<close>. The source raises \<^verbatim>\<open>ValueError\<close> with a
  message; the interpreter raises \<^verbatim>\<open>ZeroDivisionError\<close> on a division by zero and on
  \<^verbatim>\<open>0.0 ** w\<close> with negative \<open>w\<close>, \<^verbatim>\<open>TypeError\<close> when \<^verbatim>\<open>math.sqrt\<close> is given a
  complex number, and \<^verbatim>\<open>OverflowError\<close> when \<^verbatim>\<open>math.ceil\<close> is given an infinity.
\<close>

datatype error = ValueError string | ZeroDivisionError | TypeError | OverflowError

text \<open>
  The value of a Python expression \<^verbatim>\<open>x ** w\<close> on floats is a float or, for a negative
  base with a fractional exponent, a complex number.
\<close>

datatype pynum = PyFloat real | PyComplex complex

text \<open>
  \<^verbatim>\<open>x ** w\<close> for floats \<open>x\<close> and \<open>w\<close> (CPython's \<^verbatim>\<open>float_pow\<close>): \<open>1\<close> for \<open>w = 0\<close>;
  for \<open>x = 0\<close> a \<^verbatim>\<open>ZeroDivisionError\<close> when \<open>w < 0\<close> and \<open>0\<close> otherwise; for \<open>x < 0\<close> and a
  fractional \<open>w\<close> the complex power in polar form, with modulus \<open>\<bar>x\<bar> ** w\<close> and
  phase \<open>\<pi> * w\<close>; for \<open>x < 0\<close> and an integral \<open>w\<close> the real power with the sign of the
  parity of \<open>w\<close>; the real power otherwise. HOL's \<open>powr\<close> is only used on a positive base
  (on a negative base it is the power of the absolute value, which Python's is not).
\<close>

definition float_pow :: "real \<Rightarrow> real \<Rightarrow> error + pynum" where
  "float_pow x w =
     (if w = 0 then Inr (PyFloat 1)
      else if x = 0 then (if w < 0 then Inl ZeroDivisionError else Inr (PyFloat 0))
      else if x < 0 \<and> w \<noteq> of_int \<lfloor>w\<rfloor> then
        Inr (PyComplex (Complex (\<bar>x\<bar> powr w * cos (pi * w)) (\<bar>x\<bar> powr w * sin (pi * w))))
      else if x < 0 then Inr (PyFloat ((if even \<lfloor>w\<rfloor> then 1 else - 1) * \<bar>x\<bar> powr w))
      else Inr (PyFloat (x powr w)))"

section \<open>Skin-friction coefficients\<close>

text \<open>
  \<^verbatim>\<open>_cf_schlichting(Re)\<close>: two guards, then
  \<^verbatim>\<open>(2 * math.log10(Re) - 0.65) ** -2.3\<close>. The logarithm is only reached with
  \<open>0 < Re\<close>, so \<^verbatim>\<open>math.log10\<close> does not raise. (An Isabelle name cannot start with
  an underscore, and \<open>Re\<close> is the real part of a complex number in HOL: the parameter
  is called \<open>rey\<close>.)
\<close>

definition cf_schlichting :: "real \<Rightarrow> error + pynum" where
  "cf_schlichting rey =
     (if rey \<le> 0 then Inl (ValueError ''Re must be positive'')
      else if rey \<ge> 1000000000 then
        Inl (ValueError ''Re out of range for Schlichting correlation (Re < 1e9)'')
      else float_pow (2 * log 10 rey - 0.65) (- 2.3))"

text \<open>\<^verbatim>\<open>_cf_laminar(Re)\<close>: one guard, then \<^verbatim>\<open>1.328 / math.sqrt(Re)\<close>.\<close>

definition cf_laminar :: "real \<Rightarrow> error + real" where
  "cf_laminar rey =
     (if rey \<le> 0 then Inl (ValueError ''Re must be positive'')
      else Inr (1.328 / sqrt rey))"

section \<open>Wall distance\<close>

text \<open>
  The dictionary returned by \<^verbatim>\<open>estimate_wall_distance\<close> has six fixed keys; it is a
  record, its fields named after the keys with the prefix \<open>wd_\<close> (the bare keys \<open>Re\<close>
  and \<open>y\<close> would hide HOL's \<open>Re\<close> and every variable \<open>y\<close>).
\<close>

record wall_distance_result =
  wd_Re :: real
  wd_Cf :: real
  wd_tau_w :: real
  wd_u_tau :: real
  wd_y :: real
  wd_regime :: string

text \<open>
  The local variable \<^verbatim>\<open>active_regime\<close> of \<^verbatim>\<open>estimate_wall_distance\<close> (lines 43 to 46).
\<close>

definition active_regime :: "string \<Rightarrow> real \<Rightarrow> real \<Rightarrow> string" where
  "active_regime regime rey transition_Re =
     (if regime = ''auto''
      then (if rey < transition_Re then ''laminar'' else ''turbulent'')
      else regime)"

text \<open>
  \<^verbatim>\<open>estimate_wall_distance\<close>, statement by statement. \<^verbatim>\<open>Re = rho * u_inf * L / mu\<close>
  comes first and raises \<^verbatim>\<open>ZeroDivisionError\<close> for \<open>mu = 0\<close>; then the check of the
  regime string; then the coefficient, whose exception propagates. A complex coefficient
  makes \<^verbatim>\<open>tau_w\<close> and \<^verbatim>\<open>tau_w / rho\<close> complex, and \<^verbatim>\<open>math.sqrt\<close> raises \<^verbatim>\<open>TypeError\<close>.
  \<^verbatim>\<open>math.sqrt\<close> of a negative float raises \<^verbatim>\<open>ValueError\<close>. \<^verbatim>\<open>u_inf ** 2\<close> has the
  integral exponent 2 and is the square.
\<close>

definition estimate_wall_distance ::
  "real \<Rightarrow> real \<Rightarrow> real \<Rightarrow> real \<Rightarrow> real \<Rightarrow> string \<Rightarrow> real \<Rightarrow> error + wall_distance_result" where
  "estimate_wall_distance u_inf rho mu L y_plus regime transition_Re =
     (if mu = 0 then Inl ZeroDivisionError
      else
        let rey = rho * u_inf * L / mu in
        if regime \<notin> {''laminar'', ''turbulent'', ''auto''} then
          Inl (ValueError (''regime must be 'laminar', 'turbulent', or 'auto'' @ [CHR 0x27]))
        else
          let act = active_regime regime rey transition_Re in
          case (if act = ''laminar'' then map_sum id PyFloat (cf_laminar rey)
                else cf_schlichting rey) of
            Inl e \<Rightarrow> Inl e
          | Inr (PyComplex z) \<Rightarrow> (if rho = 0 then Inl ZeroDivisionError else Inl TypeError)
          | Inr (PyFloat cf) \<Rightarrow>
              let tau_w = cf * 0.5 * rho * u_inf ^ 2 in
              if rho = 0 then Inl ZeroDivisionError
              else if tau_w / rho < 0 then Inl (ValueError ''math domain error'')
              else
                let u_tau = sqrt (tau_w / rho) in
                if rho * u_tau = 0 then Inl ZeroDivisionError
                else Inr \<lparr>wd_Re = rey, wd_Cf = cf, wd_tau_w = tau_w, wd_u_tau = u_tau,
                          wd_y = y_plus * mu / (rho * u_tau), wd_regime = act\<rparr>)"

section \<open>Boundary-layer height\<close>

text \<open>
  \<^verbatim>\<open>calculate_boundary_layer_height(length, Re)\<close>. Both correlations are reached with
  \<open>0 < Re\<close> only, so neither \<^verbatim>\<open>math.sqrt\<close> nor the division raises, and
  \<^verbatim>\<open>Re ** (1/7)\<close> has a positive base: it is the real power. (\<open>length\<close> is a HOL
  constant: the parameter is called \<open>len\<close>.)
\<close>

definition calculate_boundary_layer_height :: "real \<Rightarrow> real \<Rightarrow> error + real" where
  "calculate_boundary_layer_height len rey =
     (if rey \<le> 0 then Inl (ValueError ''Reynolds number must be positive'')
      else if rey < 500000 then Inr (4.91 * len / sqrt rey)
      else Inr (0.16 * len / rey powr (1 / 7)))"

section \<open>Double arithmetic\<close>

text \<open>
  A Python float is an IEEE binary64 number: a finite double, an infinity or NaN. A finite
  double is a real \<open>m 2\<^sup>e\<close> with an integer \<open>\<bar>m\<bar> < 2\<^sup>5\<^sup>3\<close> and \<open>- 1074 \<le> e \<le> 971\<close>. The sign of
  zero is not modelled: no operation below depends on it.
\<close>

datatype pyfloat = Fin real | PInf | NInf | NaN

text \<open>Rounding to the nearest integer, a tie to the even one.\<close>

definition rte :: "real \<Rightarrow> int" where
  "rte x =
     (if x - of_int \<lfloor>x\<rfloor> < 1 / 2 then \<lfloor>x\<rfloor>
      else if 1 / 2 < x - of_int \<lfloor>x\<rfloor> then \<lfloor>x\<rfloor> + 1
      else if even \<lfloor>x\<rfloor> then \<lfloor>x\<rfloor> else \<lfloor>x\<rfloor> + 1)"

text \<open>
  The exponent of the unit in the last place of the doubles around \<open>x\<close>: 52 below the
  binary exponent of \<open>x\<close>, and \<open>- 1074\<close> in the subnormal range.
\<close>

definition ulp_exponent :: "real \<Rightarrow> int" where
  "ulp_exponent x = max \<lfloor>log 2 \<bar>x\<bar>\<rfloor> (- 1022) - 52"

text \<open>The nearest multiple of the unit in the last place, a tie to the even multiple.\<close>

definition round_double :: "real \<Rightarrow> real" where
  "round_double x =
     (if x = 0 then 0
      else of_int (rte (x / 2 powr of_int (ulp_exponent x))) * 2 powr of_int (ulp_exponent x))"

text \<open>
  The float of an exact result. The largest double is \<open>2\<^sup>1\<^sup>0\<^sup>2\<^sup>4 - 2\<^sup>9\<^sup>7\<^sup>1\<close>; a result at or
  beyond the midpoint \<open>2\<^sup>1\<^sup>0\<^sup>2\<^sup>4 - 2\<^sup>9\<^sup>7\<^sup>0\<close> between it and \<open>2\<^sup>1\<^sup>0\<^sup>2\<^sup>4\<close> becomes an infinity
  (Python's \<^verbatim>\<open>+\<close>, \<^verbatim>\<open>-\<close>, \<^verbatim>\<open>*\<close> and \<^verbatim>\<open>/\<close> on floats do not raise on overflow).
\<close>

definition fl :: "real \<Rightarrow> pyfloat" where
  "fl x =
     (if 2 ^ 1024 - 2 ^ 970 \<le> x then PInf
      else if x \<le> - (2 ^ 1024 - 2 ^ 970) then NInf
      else Fin (round_double x))"

text \<open>Python's \<^verbatim>\<open>x + y\<close>, \<^verbatim>\<open>x - y\<close> and \<^verbatim>\<open>x * y\<close> on floats.\<close>

fun py_add :: "pyfloat \<Rightarrow> pyfloat \<Rightarrow> pyfloat" where
  "py_add (Fin x) (Fin y) = fl (x + y)"
| "py_add NaN _ = NaN"
| "py_add _ NaN = NaN"
| "py_add PInf NInf = NaN"
| "py_add NInf PInf = NaN"
| "py_add PInf _ = PInf"
| "py_add _ PInf = PInf"
| "py_add NInf _ = NInf"
| "py_add _ NInf = NInf"

fun py_neg :: "pyfloat \<Rightarrow> pyfloat" where
  "py_neg (Fin x) = Fin (- x)"
| "py_neg PInf = NInf"
| "py_neg NInf = PInf"
| "py_neg NaN = NaN"

definition py_sub :: "pyfloat \<Rightarrow> pyfloat \<Rightarrow> pyfloat" where
  "py_sub x y = py_add x (py_neg y)"

text \<open>An infinity with the sign of a finite factor; NaN for the factor zero.\<close>

definition signed_inf :: "real \<Rightarrow> pyfloat" where
  "signed_inf x = (if x = 0 then NaN else if 0 < x then PInf else NInf)"

fun py_mul :: "pyfloat \<Rightarrow> pyfloat \<Rightarrow> pyfloat" where
  "py_mul (Fin x) (Fin y) = fl (x * y)"
| "py_mul NaN _ = NaN"
| "py_mul _ NaN = NaN"
| "py_mul PInf (Fin y) = signed_inf y"
| "py_mul (Fin x) PInf = signed_inf x"
| "py_mul NInf (Fin y) = signed_inf (- y)"
| "py_mul (Fin x) NInf = signed_inf (- x)"
| "py_mul PInf PInf = PInf"
| "py_mul NInf NInf = PInf"
| "py_mul PInf NInf = NInf"
| "py_mul NInf PInf = NInf"

text \<open>
  Python's \<^verbatim>\<open>x / y\<close> on floats raises \<^verbatim>\<open>ZeroDivisionError\<close> for a divisor zero, whatever
  the dividend. A finite dividend over an infinity is zero; an infinity over a finite
  divisor is an infinity with the sign of the quotient; an infinity over an infinity is
  NaN.
\<close>

fun py_div :: "pyfloat \<Rightarrow> pyfloat \<Rightarrow> error + pyfloat" where
  "py_div x (Fin y) =
     (if y = 0 then Inl ZeroDivisionError
      else case x of
        Fin a \<Rightarrow> Inr (fl (a / y))
      | PInf \<Rightarrow> Inr (signed_inf y)
      | NInf \<Rightarrow> Inr (signed_inf (- y))
      | NaN \<Rightarrow> Inr NaN)"
| "py_div NaN _ = Inr NaN"
| "py_div _ NaN = Inr NaN"
| "py_div (Fin a) _ = Inr (Fin 0)"
| "py_div _ _ = Inr NaN"

text \<open>
  \<^verbatim>\<open>math.log(x)\<close> raises \<^verbatim>\<open>ValueError\<close> for \<open>x \<le> 0\<close> and for the negative infinity, and
  returns its argument for the positive infinity and for NaN. On a positive double it
  returns the logarithm of the C library, which is modelled as the correctly rounded
  one: the double nearest to \<open>ln x\<close>.
\<close>

fun py_log :: "pyfloat \<Rightarrow> error + pyfloat" where
  "py_log (Fin x) = (if x \<le> 0 then Inl (ValueError ''math domain error'') else Inr (fl (ln x)))"
| "py_log PInf = Inr PInf"
| "py_log NInf = Inl (ValueError ''math domain error'')"
| "py_log NaN = Inr NaN"

text \<open>\<^verbatim>\<open>math.ceil(x)\<close> returns a Python integer and raises on an infinity and on NaN.\<close>

fun py_ceil :: "pyfloat \<Rightarrow> error + int" where
  "py_ceil (Fin x) = Inr \<lceil>x\<rceil>"
| "py_ceil PInf = Inl OverflowError"
| "py_ceil NInf = Inl OverflowError"
| "py_ceil NaN = Inl (ValueError ''cannot convert float NaN to integer'')"

section \<open>Prism layers\<close>

text \<open>
  \<^verbatim>\<open>calculate_prism_layer_cells\<close>: the guard, then line 99 in double arithmetic, operation
  by operation in Python's order of evaluation:
  \<^verbatim>\<open>math.ceil(math.log((total_thickness * (growth_rate - 1)) / first_cell_height + 1) / math.log(growth_rate))\<close>.
  The three parameters are finite floats and the literal \<^verbatim>\<open>1\<close> is the float 1.
\<close>

definition calculate_prism_layer_cells :: "real \<Rightarrow> real \<Rightarrow> real \<Rightarrow> error + int" where
  "calculate_prism_layer_cells total_thickness first_cell_height growth_rate =
     (if total_thickness \<le> 0 \<or> first_cell_height \<le> 0 \<or> growth_rate \<le> 1 then
        Inl (ValueError ''Invalid input values for prism layer calculation'')
      else
        case py_div (py_mul (Fin total_thickness) (py_sub (Fin growth_rate) (Fin 1)))
               (Fin first_cell_height) of
          Inl e \<Rightarrow> Inl e
        | Inr ratio \<Rightarrow>
            (case py_log (py_add ratio (Fin 1)) of
               Inl e \<Rightarrow> Inl e
             | Inr log_num \<Rightarrow>
                 (case py_log (Fin growth_rate) of
                    Inl e \<Rightarrow> Inl e
                  | Inr log_den \<Rightarrow>
                      (case py_div log_num log_den of
                         Inl e \<Rightarrow> Inl e
                       | Inr cells \<Rightarrow> py_ceil cells))))"

section \<open>The orchestrator\<close>

record meshing_result =
  wall_distance :: real
  total_boundary_layer_thickness :: real
  number_of_prism_layers :: int
  estimation_details :: wall_distance_result

text \<open>
  \<^verbatim>\<open>calculate_all_parameters\<close> calls the three stages in order, with the regime
  \<^verbatim>\<open>"auto"\<close> and the default \<^verbatim>\<open>transition_Re = 5.0e5\<close>. There is no \<^verbatim>\<open>try\<close> in the
  source: an exception of a stage ends the call.
\<close>

definition calculate_all_parameters ::
  "real \<Rightarrow> real \<Rightarrow> real \<Rightarrow> real \<Rightarrow> real \<Rightarrow> real \<Rightarrow> error + meshing_result" where
  "calculate_all_parameters len free_stream_velocity density dynamic_viscosity
       y_plus_target growth_rate =
     (case estimate_wall_distance free_stream_velocity density dynamic_viscosity len
             y_plus_target ''auto'' 500000 of
        Inl e \<Rightarrow> Inl e
      | Inr res \<Rightarrow>
          (case calculate_boundary_layer_height len (wd_Re res) of
             Inl e \<Rightarrow> Inl e
           | Inr total_thickness \<Rightarrow>
               (case calculate_prism_layer_cells total_thickness (wd_y res) growth_rate of
                  Inl e \<Rightarrow> Inl e
                | Inr total_height \<Rightarrow>
                    Inr \<lparr>wall_distance = wd_y res,
                         total_boundary_layer_thickness = total_thickness,
                         number_of_prism_layers = total_height,
                         estimation_details = res\<rparr>)))"

section \<open>The geometric series of the specification\<close>

text \<open>
  This definition follows the specification, not the source: section 4.4 writes the
  total height of \<open>n\<close> layers that start at \<open>h\<^sub>0\<close> and grow by the factor \<open>r\<close> as
  \<open>S(n) = h\<^sub>0 (r\<^sup>n - 1) / (r - 1)\<close>. The layer count of the source is compared with it.
\<close>

definition spec_geometric_sum :: "real \<Rightarrow> real \<Rightarrow> nat \<Rightarrow> real" where
  "spec_geometric_sum h0 r n = h0 * (r ^ n - 1) / (r - 1)"

text \<open>
  This definition too follows the specification: section 4.4 gives the count as
  \<open>n = ceil (ln (T (r - 1) / h\<^sub>0 + 1) / ln r)\<close>, a formula on exact numbers.
\<close>

definition spec_prism_layer_count :: "real \<Rightarrow> real \<Rightarrow> real \<Rightarrow> int" where
  "spec_prism_layer_count T h0 r = \<lceil>ln (T * (r - 1) / h0 + 1) / ln r\<rceil>"

section \<open>Python's power on the bases the source uses\<close>

lemma float_pow_pos_base: "0 < x \<Longrightarrow> w \<noteq> 0 \<Longrightarrow> float_pow x w = Inr (PyFloat (x powr w))"
  by (simp add: float_pow_def)

text \<open>The square in \<^verbatim>\<open>u_inf ** 2\<close> is a float for every base.\<close>

lemma float_pow_square: "float_pow x 2 = Inr (PyFloat (x ^ 2))"
  by (cases "x = 0"; cases "x < 0") (simp_all add: float_pow_def)

section \<open>The laminar coefficient\<close>

text \<open>
  Claim C7. For every \<open>Re > 0\<close> the laminar skin-friction estimator returns exactly
  \<open>1.328 / sqrt Re\<close>, and for every \<open>Re \<le> 0\<close> it fails with the validation error (the
  specification's InvalidInput is the source's \<^verbatim>\<open>ValueError("Re must be positive")\<close>).
\<close>

theorem cf_laminar_correct:
  "(0 < rey \<longrightarrow> cf_laminar rey = Inr (1.328 / sqrt rey)) \<and>
   (rey \<le> 0 \<longrightarrow> cf_laminar rey = Inl (ValueError ''Re must be positive''))"
  by (simp add: cf_laminar_def)

theorem cf_laminar_correct_witness:
  "cf_laminar 4 = Inr 0.664 \<and> cf_laminar (- 5) = Inl (ValueError ''Re must be positive'')"
  using cf_laminar_correct [of 4] cf_laminar_correct [of "- 5"] by simp

section \<open>The layer count of the specification\<close>

text \<open>
  For \<open>T > 0\<close>, \<open>h\<^sub>0 > 0\<close> and \<open>r > 1\<close> the argument of the outer logarithm is above 1 and
  the quotient of the two logarithms is positive.
\<close>

lemma prism_arg_gt_one:
  assumes "0 < T" "0 < h0" "1 < r"
  shows "1 < T * (r - 1) / h0 + (1::real)"
  using assms by simp

lemma prism_ratio_pos:
  assumes "0 < T" "0 < h0" "1 < r"
  shows "0 < ln (T * (r - 1) / h0 + 1) / ln (r::real)"
proof -
  have "0 < ln (T * (r - 1) / h0 + 1)"
    using prism_arg_gt_one [OF assms] by (rule ln_gt_zero)
  moreover have "0 < ln r"
    using assms(3) by (rule ln_gt_zero)
  ultimately show ?thesis by simp
qed

text \<open>
  \<open>n\<close> layers reach the thickness \<open>T\<close> exactly when \<open>n\<close> is at least the quotient of
  logarithms.
\<close>

lemma geometric_sum_ge_iff:
  assumes "0 < h0" "1 < r"
  shows "T \<le> spec_geometric_sum h0 r n \<longleftrightarrow> T * (r - 1) / h0 + 1 \<le> r ^ n"
proof -
  have "T \<le> h0 * (r ^ n - 1) / (r - 1) \<longleftrightarrow> T * (r - 1) \<le> h0 * (r ^ n - 1)"
    using assms by (simp add: pos_le_divide_eq)
  also have "\<dots> \<longleftrightarrow> T * (r - 1) / h0 \<le> r ^ n - 1"
    using assms by (simp add: pos_divide_le_eq mult.commute)
  also have "\<dots> \<longleftrightarrow> T * (r - 1) / h0 + 1 \<le> r ^ n"
    by auto
  finally show ?thesis
    unfolding spec_geometric_sum_def .
qed

lemma pow_ge_iff_ratio:
  assumes "1 < r" "0 < x"
  shows "x \<le> r ^ n \<longleftrightarrow> ln x / ln r \<le> real n"
proof -
  have lr: "0 < ln r" using assms(1) by (rule ln_gt_zero)
  have "ln x / ln r \<le> real n \<longleftrightarrow> ln x \<le> real n * ln r"
    using lr by (simp add: pos_divide_le_eq)
  also have "\<dots> \<longleftrightarrow> ln x \<le> ln (r ^ n)"
    by (simp add: ln_realpow)
  also have "\<dots> \<longleftrightarrow> x \<le> r ^ n"
    using assms by simp
  finally show ?thesis by simp
qed

lemma geometric_sum_ge_iff_ratio:
  assumes "0 < T" "0 < h0" "1 < r"
  shows "T \<le> spec_geometric_sum h0 r n \<longleftrightarrow> ln (T * (r - 1) / h0 + 1) / ln r \<le> real n"
proof -
  have "0 < T * (r - 1) / h0 + 1"
    using prism_arg_gt_one [OF assms] by linarith
  then show ?thesis
    using geometric_sum_ge_iff [OF assms(2,3)] pow_ge_iff_ratio [OF assms(3)] by simp
qed

text \<open>
  On exact numbers the formula of the specification gives the least number of layers
  that reaches \<open>T\<close>, and at least one layer.
\<close>

lemma spec_count_minimal:
  assumes T: "0 < T" and h: "0 < h0" and r: "1 < r"
  shows "1 \<le> spec_prism_layer_count T h0 r \<and>
         T \<le> spec_geometric_sum h0 r (nat (spec_prism_layer_count T h0 r)) \<and>
         spec_geometric_sum h0 r (nat (spec_prism_layer_count T h0 r - 1)) < T \<and>
         (\<forall>m. T \<le> spec_geometric_sum h0 r m \<longrightarrow> nat (spec_prism_layer_count T h0 r) \<le> m)"
proof -
  define q where "q = ln (T * (r - 1) / h0 + 1) / ln r"
  define n where "n = spec_prism_layer_count T h0 r"
  have n: "n = \<lceil>q\<rceil>"
    by (simp add: n_def q_def spec_prism_layer_count_def)
  have qpos: "0 < q"
    unfolding q_def by (rule prism_ratio_pos [OF T h r])
  have n1: "1 \<le> n"
    unfolding n using qpos by linarith
  have iff: "\<And>m. T \<le> spec_geometric_sum h0 r m \<longleftrightarrow> q \<le> real m"
    unfolding q_def by (rule geometric_sum_ge_iff_ratio [OF T h r])
  have up: "q \<le> real (nat n)"
    using n1 unfolding n by linarith
  have low: "\<not> q \<le> real (nat (n - 1))"
    using n1 unfolding n by linarith
  have least: "nat n \<le> m" if "q \<le> real m" for m
    using that n1 unfolding n by linarith
  have "T \<le> spec_geometric_sum h0 r (nat n)"
    using up by (simp add: iff)
  moreover have "spec_geometric_sum h0 r (nat (n - 1)) < T"
    using low iff [of "nat (n - 1)"] by linarith
  moreover have "\<forall>m. T \<le> spec_geometric_sum h0 r m \<longrightarrow> nat n \<le> m"
    using least by (simp add: iff)
  ultimately show ?thesis
    using n1 unfolding n_def by blast
qed

lemma spec_count_31_1_5: "spec_prism_layer_count 31 1 5 = 3"
proof -
  have "ln (125::real) = ln (5 ^ 3)" by simp
  also have "\<dots> = 3 * ln 5" by (simp only: ln_realpow)
  finally show ?thesis
    by (simp add: spec_prism_layer_count_def)
qed

section \<open>Rounding\<close>

text \<open>Rounding to an integer stays within one half and keeps an integer bound.\<close>

lemma rte_floor_cases: "rte x = \<lfloor>x\<rfloor> \<or> rte x = \<lfloor>x\<rfloor> + 1"
  by (simp add: rte_def)

lemma rte_bounds: "x - 1 / 2 \<le> of_int (rte x) \<and> of_int (rte x) \<le> x + 1 / 2"
  unfolding rte_def by (auto; linarith)

lemma rte_eq:
  assumes "of_int n - 1 / 2 < x" "x < of_int n + 1 / 2"
  shows "rte x = n"
proof -
  have "of_int (rte x) < (of_int n :: real) + 1" "(of_int n :: real) - 1 < of_int (rte x)"
    using rte_bounds [of x] assms by linarith+
  then have "rte x < n + 1" "n - 1 < rte x"
    by linarith+
  then show ?thesis by linarith
qed

lemma rte_of_int: "rte (of_int n) = n"
  by (rule rte_eq) simp_all

lemma rte_ge_int:
  assumes "of_int n \<le> x"
  shows "n \<le> rte x"
proof -
  have "n \<le> \<lfloor>x\<rfloor>" using assms by (simp add: le_floor_iff)
  then show ?thesis using rte_floor_cases [of x] by linarith
qed

lemma rte_le_int:
  assumes "x \<le> of_int n"
  shows "rte x \<le> n"
proof (cases "x = of_int n")
  case True
  then show ?thesis by (simp add: rte_of_int)
next
  case False
  then have "x < of_int n" using assms by simp
  then have "\<lfloor>x\<rfloor> < n" by (simp add: floor_less_iff)
  then show ?thesis using rte_floor_cases [of x] by linarith
qed

lemma rte_le_double:
  assumes "0 \<le> x"
  shows "of_int (rte x) \<le> 2 * x"
proof (cases "x \<le> 1 / 2")
  case True
  then have f: "\<lfloor>x\<rfloor> = 0" using assms by (simp add: floor_eq_iff)
  then have "rte x = 0" using True by (auto simp: rte_def)
  then show ?thesis using assms by simp
next
  case False
  then show ?thesis using rte_bounds [of x] by linarith
qed

text \<open>
  The rounded value in the binade \<open>2\<^sup>k \<le> \<bar>x\<bar> < 2\<^sup>k\<^sup>+\<^sup>1\<close> and in the subnormal range.
\<close>

lemma floor_log2_eq:
  assumes "2 powr of_int k \<le> x" "x < 2 powr of_int (k + 1)"
  shows "\<lfloor>log 2 x\<rfloor> = k"
proof -
  have pos: "0 < x"
    using assms(1) powr_gt_zero [of 2 "of_int k"] by linarith
  have "of_int k \<le> log 2 x"
    using assms(1) pos by (simp add: le_log_iff)
  moreover have "log 2 x < of_int k + 1"
    using assms(2) pos by (simp add: log_less_iff add.commute)
  ultimately show ?thesis
    by (simp add: floor_eq_iff)
qed

lemma round_double_binade:
  assumes "2 powr of_int k \<le> \<bar>x\<bar>" "\<bar>x\<bar> < 2 powr of_int (k + 1)" "- 1022 \<le> k"
  shows "round_double x = of_int (rte (x / 2 powr of_int (k - 52))) * 2 powr of_int (k - 52)"
proof -
  have "x \<noteq> 0"
    using assms(1) powr_gt_zero [of 2 "of_int k"] by auto
  moreover have "ulp_exponent x = k - 52"
    using floor_log2_eq [OF assms(1,2)] assms(3) by (simp add: ulp_exponent_def)
  ultimately show ?thesis
    by (simp add: round_double_def)
qed

lemma round_double_subnormal:
  assumes "\<bar>x\<bar> < 2 powr (- 1022)"
  shows "round_double x = of_int (rte (x / 2 powr (- 1074))) * 2 powr (- 1074)"
proof (cases "x = 0")
  case True
  then show ?thesis by (simp add: round_double_def rte_def)
next
  case False
  then have "log 2 \<bar>x\<bar> < - 1022"
    using assms by (simp add: log_less_iff)
  then have "\<lfloor>log 2 \<bar>x\<bar>\<rfloor> < - 1022"
    by (simp add: floor_less_iff)
  then have "ulp_exponent x = - 1074"
    by (simp add: ulp_exponent_def)
  then show ?thesis using False by (simp add: round_double_def)
qed

text \<open>
  Rounding keeps the sign, at most doubles a value, and does not cross a power of two
  from above.
\<close>

lemma round_double_nonneg:
  assumes "0 \<le> x"
  shows "0 \<le> round_double x"
proof -
  have "0 \<le> rte (x / 2 powr of_int (ulp_exponent x))"
    by (rule rte_ge_int) (use assms in simp)
  then show ?thesis
    by (simp add: round_double_def)
qed

lemma round_double_le_double:
  assumes "0 \<le> x"
  shows "round_double x \<le> 2 * x"
proof (cases "x = 0")
  case True
  then show ?thesis by (simp add: round_double_def)
next
  case False
  define u :: real where "u = 2 powr of_int (ulp_exponent x)"
  have u: "0 < u" by (simp add: u_def)
  have "of_int (rte (x / u)) \<le> 2 * (x / u)"
    by (rule rte_le_double) (use assms u in simp)
  then have "of_int (rte (x / u)) * u \<le> 2 * (x / u) * u"
    using u by (simp only: mult_right_mono less_imp_le)
  then show ?thesis
    using False u by (simp add: round_double_def u_def)
qed

lemma round_double_ge_pow:
  assumes "2 powr of_int k \<le> x" "- 1022 \<le> k"
  shows "2 powr of_int k \<le> round_double x"
proof -
  have pos: "0 < x"
    using assms(1) powr_gt_zero [of 2 "of_int k"] by linarith
  define e where "e = \<lfloor>log 2 x\<rfloor>"
  have ke: "k \<le> e"
    unfolding e_def using assms(1) pos by (simp add: le_floor_iff le_log_iff)
  have lo: "2 powr of_int e \<le> x"
    unfolding e_def using pos by (simp add: le_log_iff [symmetric])
  have ue: "ulp_exponent x = e - 52"
    using ke assms(2) pos by (simp add: ulp_exponent_def e_def)
  define u :: real where "u = 2 powr of_int (e - 52)"
  have u: "0 < u" by (simp add: u_def)
  have p: "2 powr of_int e = 2 ^ 52 * u"
    unfolding u_def by (simp add: powr_diff)
  have "(2::real) ^ 52 \<le> x / u"
    using lo u p by (simp add: pos_le_divide_eq)
  then have "of_int (2 ^ 52) \<le> x / u"
    by simp
  then have "(2::int) ^ 52 \<le> rte (x / u)"
    by (rule rte_ge_int)
  then have "(2::real) ^ 52 \<le> of_int (rte (x / u))"
    by (metis of_int_le_iff of_int_numeral of_int_power)
  then have "2 ^ 52 * u \<le> of_int (rte (x / u)) * u"
    using u by (simp only: mult_right_mono less_imp_le)
  then have "2 powr of_int e \<le> round_double x"
    using pos ue p by (simp add: round_double_def u_def)
  moreover have "2 powr of_int k \<le> (2::real) powr of_int e"
    using ke by simp
  ultimately show ?thesis by linarith
qed

lemma fl_Fin:
  assumes "- (2 ^ 1024 - 2 ^ 970) < x" "x < 2 ^ 1024 - 2 ^ 970"
  shows "fl x = Fin (round_double x)"
  using assms by (simp add: fl_def)

text \<open>A multiple of the unit in the last place of its binade is a double: it rounds to itself.\<close>

lemma round_double_exact:
  assumes "2 powr of_int k \<le> \<bar>x\<bar>" "\<bar>x\<bar> < 2 powr of_int (k + 1)" "- 1022 \<le> k"
    and "x / 2 powr of_int (k - 52) = of_int n"
  shows "round_double x = x"
proof -
  have "round_double x = of_int n * 2 powr of_int (k - 52)"
    using round_double_binade [OF assms(1,2,3)] assms(4) by (simp add: rte_of_int)
  also have "\<dots> = x"
    using assms(4) by (metis nonzero_divide_eq_eq powr_eq_0_iff zero_neq_numeral)
  finally show ?thesis .
qed

text \<open>
  The float of a positive real in the binade \<open>2\<^sup>k \<le> x < 2\<^sup>k\<^sup>+\<^sup>1\<close>, from the integer nearest to
  \<open>x / 2\<^sup>k\<^sup>-\<^sup>5\<^sup>2\<close>.
\<close>

lemma below_overflow:
  fixes x :: real
  assumes "x < 2 powr of_int (k + 1)" "k \<le> 1022"
  shows "x < 2 ^ 1024 - 2 ^ 970"
proof -
  have "(2::real) powr of_int (k + 1) \<le> 2 powr 1023"
    using assms(2) by (intro powr_mono) simp_all
  also have "\<dots> = 2 ^ 1023"
    by simp
  also have "\<dots> < (2::real) ^ 1024 - 2 ^ 970"
    by simp
  finally show ?thesis using assms(1) by linarith
qed

lemma fl_nearest:
  fixes x :: real
  assumes "2 powr of_int k \<le> x" "x < 2 powr of_int (k + 1)" "- 1022 \<le> k" "k \<le> 1022"
    and "of_int n - 1 / 2 < x / 2 powr of_int (k - 52)"
    and "x / 2 powr of_int (k - 52) < of_int n + 1 / 2"
  shows "fl x = Fin (of_int n * 2 powr of_int (k - 52))"
proof -
  have pos: "0 < x"
    using assms(1) powr_gt_zero [of 2 "of_int k"] by linarith
  have "round_double x = of_int (rte (x / 2 powr of_int (k - 52))) * 2 powr of_int (k - 52)"
    using pos assms(1,2,3) by (intro round_double_binade) simp_all
  moreover have "rte (x / 2 powr of_int (k - 52)) = n"
    using assms(5,6) by (rule rte_eq)
  moreover have "fl x = Fin (round_double x)"
    using pos below_overflow [OF assms(2,4)] by (intro fl_Fin) simp_all
  ultimately show ?thesis by simp
qed

lemma fl_exact:
  fixes x :: real
  assumes "2 powr of_int k \<le> x" "x < 2 powr of_int (k + 1)" "- 1022 \<le> k" "k \<le> 1022"
    and "x / 2 powr of_int (k - 52) = of_int n"
  shows "fl x = Fin x"
proof -
  have "fl x = Fin (of_int n * 2 powr of_int (k - 52))"
    using assms by (intro fl_nearest) simp_all
  also have "of_int n * 2 powr of_int (k - 52) = x"
    using assms(5) by (metis nonzero_divide_eq_eq powr_eq_0_iff zero_neq_numeral)
  finally show ?thesis .
qed

section \<open>The logarithms of 5 and 2 to the last place\<close>

text \<open>
  Bounds on the exponential from its Taylor polynomial, with the remainder of
  Maclaurin's formula, and from squaring.
\<close>

lemma exp_taylor_upper:
  fixes x :: real
  assumes "0 \<le> x" "x \<le> 1"
  shows "exp x \<le> (\<Sum>m<n. x ^ m / fact m) + 3 * x ^ n / fact n"
proof -
  obtain t where t: "\<bar>t\<bar> \<le> \<bar>x\<bar>"
    and e: "exp x = (\<Sum>m<n. x ^ m / fact m) + exp t / fact n * x ^ n"
    using Maclaurin_exp_le [of x n] by blast
  have "exp t \<le> exp 1"
    using t assms by simp
  then have "exp t \<le> 3"
    using exp_le by linarith
  then have "exp t * (x ^ n / fact n) \<le> 3 * (x ^ n / fact n)"
    using assms(1) by (intro mult_right_mono) simp_all
  then show ?thesis
    unfolding e by (simp add: field_simps)
qed

lemma exp_taylor_lower:
  fixes x :: real
  assumes "0 \<le> x"
  shows "(\<Sum>m<n. x ^ m / fact m) \<le> exp x"
proof -
  obtain t where e: "exp x = (\<Sum>m<n. x ^ m / fact m) + exp t / fact n * x ^ n"
    using Maclaurin_exp_le [of x n] by blast
  have "0 \<le> exp t / fact n * x ^ n"
    using assms by simp
  then show ?thesis
    unfolding e by linarith
qed

lemma exp_double_upper:
  fixes x u v :: real
  assumes "exp x \<le> u" "u * u \<le> v"
  shows "exp (2 * x) \<le> v"
proof -
  have "exp (2 * x) = exp x * exp x"
    by (simp add: exp_add [symmetric])
  also have "\<dots> \<le> u * u"
  proof (rule mult_mono)
    show "0 \<le> u" using assms(1) exp_ge_zero [of x] by linarith
  qed (use assms(1) in simp_all)
  finally show ?thesis using assms(2) by linarith
qed

lemma exp_double_lower:
  fixes x l v :: real
  assumes "l \<le> exp x" "0 \<le> l" "v \<le> l * l"
  shows "v \<le> exp (2 * x)"
proof -
  have "l * l \<le> exp x * exp x"
    using assms(1,2) by (intro mult_mono) simp_all
  also have "\<dots> = exp (2 * x)"
    by (simp add: exp_add [symmetric])
  finally show ?thesis using assms(3) by linarith
qed

text \<open>
  \<open>ln 5\<close> and \<open>ln 2\<close> between two rationals less than \<open>2\<^sup>-\<^sup>5\<^sup>5\<close> apart: the exponential of
  a sixteenth of each bound by the Taylor polynomial of degree 11, rounded outwards to
  a multiple of \<open>2\<^sup>-\<^sup>1\<^sup>0\<^sup>0\<close>, then squared four times.
\<close>

lemma ln5_lower: "57986111861713307 / 36028797018963968 < ln (5::real)"
proof -
  have "exp (57986111861713307 / 576460752303423488 :: real) \<le> (\<Sum>m<12. (57986111861713307 / 576460752303423488) ^ m / fact m) + 3 * (57986111861713307 / 576460752303423488) ^ 12 / fact 12"
    by (rule exp_taylor_upper) simp_all
  also have "\<dots> \<le> 1401797211284569189787278052577 / 1267650600228229401496703205376"
    by (simp add: lessThan_nat_numeral lessThan_Suc fact_numeral power_divide)
  finally have u0: "exp (57986111861713307 / 576460752303423488 :: real) \<le> 1401797211284569189787278052577 / 1267650600228229401496703205376" .
  have u1: "exp (2 * (57986111861713307 / 576460752303423488) :: real) \<le> 775069810723636180270184345695 / 633825300114114700748351602688"
    by (rule exp_double_upper [OF u0]) simp
  have u2: "exp (2 * (2 * (57986111861713307 / 576460752303423488)) :: real) \<le> 118473736254101969097895851065 / 79228162514264337593543950336"
    by (rule exp_double_upper [OF u1]) simp
  have u3: "exp (2 * (2 * (2 * (57986111861713307 / 576460752303423488))) :: real) \<le> 2834552913828731351316710543037 / 1267650600228229401496703205376"
    by (rule exp_double_upper [OF u2]) simp
  have u4: "exp (2 * (2 * (2 * (2 * (57986111861713307 / 576460752303423488)))) :: real) \<le> 396140812571321684216459433741 / 79228162514264337593543950336"
    by (rule exp_double_upper [OF u3]) simp
  have "exp (57986111861713307 / 36028797018963968 :: real) < 5"
    using u4 by simp
  then have "exp (57986111861713307 / 36028797018963968 :: real) < exp (ln 5)"
    by simp
  then show ?thesis
    by (simp only: exp_less_cancel_iff)
qed

lemma ln5_upper: "ln (5::real) < 231944447446853231 / 144115188075855872"
proof -
  have "1401797211284569191602556044967 / 1267650600228229401496703205376 \<le> (\<Sum>m<12. (231944447446853231 / 2305843009213693952 :: real) ^ m / fact m)"
    by (simp add: lessThan_nat_numeral lessThan_Suc fact_numeral power_divide)
  also have "\<dots> \<le> exp (231944447446853231 / 2305843009213693952)"
    by (rule exp_taylor_lower) simp
  finally have l0: "1401797211284569191602556044967 / 1267650600228229401496703205376 \<le> exp (231944447446853231 / 2305843009213693952 :: real)" .
  have l1: "1550139621447272364555121063975 / 1267650600228229401496703205376 \<le> exp (2 * (231944447446853231 / 2305843009213693952) :: real)"
    by (rule exp_double_lower [OF l0]) simp_all
  have l2: "236947472508203939423146211709 / 158456325028528675187087900672 \<le> exp (2 * (2 * (231944447446853231 / 2305843009213693952)) :: real)"
    by (rule exp_double_lower [OF l1]) simp_all
  have l3: "2834552913828731380681879663441 / 1267650600228229401496703205376 \<le> exp (2 * (2 * (2 * (231944447446853231 / 2305843009213693952))) :: real)"
    by (rule exp_double_lower [OF l2]) simp_all
  have l4: "6338253001141147078788379587857 / 1267650600228229401496703205376 \<le> exp (2 * (2 * (2 * (2 * (231944447446853231 / 2305843009213693952)))) :: real)"
    by (rule exp_double_lower [OF l3]) simp_all
  have "5 < exp (231944447446853231 / 144115188075855872 :: real)"
    using l4 by simp
  then have "exp (ln 5) < exp (231944447446853231 / 144115188075855872 :: real)"
    by simp
  then show ?thesis
    by (simp only: exp_less_cancel_iff)
qed

lemma ln2_lower: "6243314768165359 / 9007199254740992 < ln (2::real)"
proof -
  have "exp (6243314768165359 / 144115188075855872 :: real) \<le> (\<Sum>m<12. (6243314768165359 / 144115188075855872) ^ m / fact m) + 3 * (6243314768165359 / 144115188075855872) ^ 12 / fact 12"
    by (rule exp_taylor_upper) simp_all
  also have "\<dots> \<le> 661887143548357294787934131711 / 633825300114114700748351602688"
    by (simp add: lessThan_nat_numeral lessThan_Suc fact_numeral power_divide)
  finally have u0: "exp (6243314768165359 / 144115188075855872 :: real) \<le> 661887143548357294787934131711 / 633825300114114700748351602688" .
  have u1: "exp (2 * (6243314768165359 / 144115188075855872) :: real) \<le> 345595695466659848498704664339 / 316912650057057350374175801344"
    by (rule exp_double_upper [OF u0]) simp
  have u2: "exp (2 * (2 * (6243314768165359 / 144115188075855872)) :: real) \<le> 1507499113128880381229869510349 / 1267650600228229401496703205376"
    by (rule exp_double_upper [OF u1]) simp
  have u3: "exp (2 * (2 * (2 * (6243314768165359 / 144115188075855872))) :: real) \<le> 896364335596578228306157979903 / 633825300114114700748351602688"
    by (rule exp_double_upper [OF u2]) simp
  have u4: "exp (2 * (2 * (2 * (2 * (6243314768165359 / 144115188075855872)))) :: real) \<le> 1267650600228229372099295887925 / 633825300114114700748351602688"
    by (rule exp_double_upper [OF u3]) simp
  have "exp (6243314768165359 / 9007199254740992 :: real) < 2"
    using u4 by simp
  then have "exp (6243314768165359 / 9007199254740992 :: real) < exp (ln 2)"
    by simp
  then show ?thesis
    by (simp only: exp_less_cancel_iff)
qed

lemma ln2_upper: "ln (2::real) < 99893036290645749 / 144115188075855872"
proof -
  have "1323774287096714592446345832387 / 1267650600228229401496703205376 \<le> (\<Sum>m<12. (99893036290645749 / 2305843009213693952 :: real) ^ m / fact m)"
    by (simp add: lessThan_nat_numeral lessThan_Suc fact_numeral power_divide)
  also have "\<dots> \<le> exp (99893036290645749 / 2305843009213693952)"
    by (rule exp_taylor_lower) simp
  finally have l0: "1323774287096714592446345832387 / 1267650600228229401496703205376 \<le> exp (99893036290645749 / 2305843009213693952 :: real)" .
  have l1: "1382382781866639399989947593987 / 1267650600228229401496703205376 \<le> exp (2 * (99893036290645749 / 2305843009213693952) :: real)"
    by (rule exp_double_lower [OF l0]) simp_all
  have l2: "1507499113128880394305338437791 / 1267650600228229401496703205376 \<le> exp (2 * (2 * (99893036290645749 / 2305843009213693952)) :: real)"
    by (rule exp_double_lower [OF l1]) simp_all
  have l3: "1792728671193156487711197320827 / 1267650600228229401496703205376 \<le> exp (2 * (2 * (2 * (99893036290645749 / 2305843009213693952))) :: real)"
    by (rule exp_double_lower [OF l2]) simp_all
  have l4: "2535301200456458832159511366625 / 1267650600228229401496703205376 \<le> exp (2 * (2 * (2 * (2 * (99893036290645749 / 2305843009213693952)))) :: real)"
    by (rule exp_double_lower [OF l3]) simp_all
  have "2 < exp (99893036290645749 / 144115188075855872 :: real)"
    using l4 by simp
  then have "exp (ln 2) < exp (99893036290645749 / 144115188075855872 :: real)"
    by simp
  then show ?thesis
    by (simp only: exp_less_cancel_iff)
qed

section \<open>The prism-layer count in double arithmetic\<close>

text \<open>The doubles that line 99 computes on the inputs below.\<close>

lemma round_double_one: "round_double 1 = 1"
  using round_double_exact [of 0 1 "2 ^ 52"] by (simp add: powr_neg_numeral)

lemma fl_one: "fl 1 = Fin 1"
  by (simp add: fl_def round_double_one)


lemma half_le_ln2: "1 / 2 \<le> ln (2::real)"
proof -
  have "ln (1 / 2 :: real) \<le> 1 / 2 - 1"
    by (rule ln_le_minus_one) simp
  moreover have "ln (1 / 2 :: real) = - ln 2"
    by (simp add: ln_div)
  ultimately show ?thesis by linarith
qed



lemma fl_4: "fl 4 = Fin 4"
  using fl_exact [of 2 4 "2 ^ 52"] by (simp add: powr_neg_numeral)

lemma fl_124: "fl 124 = Fin 124"
  using fl_exact [of 6 124 "124 * 2 ^ 46"] by (simp add: powr_neg_numeral)

lemma fl_125: "fl 125 = Fin 125"
  using fl_exact [of 6 125 "125 * 2 ^ 46"] by (simp add: powr_neg_numeral)

lemma ln_125: "ln (125::real) = 3 * ln 5"
proof -
  have "ln (125::real) = ln (5 ^ 3)" by simp
  also have "\<dots> = 3 * ln 5" by (simp only: ln_realpow)
  finally show ?thesis .
qed

lemma fl_ln_5: "fl (ln 5) = Fin (7248263982714163 / 2 ^ 52)"
  using fl_nearest [of 0 "ln 5" 7248263982714163] ln5_lower ln5_upper
  by (simp add: powr_neg_numeral)

lemma fl_ln_125: "fl (ln 125) = Fin (5436197987035623 / 2 ^ 50)"
  using fl_nearest [of 2 "3 * ln 5" 5436197987035623] ln5_lower ln5_upper
  by (simp add: powr_neg_numeral ln_125)

lemma fl_quotient_5:
  "fl (5436197987035623 / 2 ^ 50 / (7248263982714163 / 2 ^ 52)) = Fin (3 + 1 / 2 ^ 51)"
  using fl_nearest [of 1 "5436197987035623 / 2 ^ 50 / (7248263982714163 / 2 ^ 52)"
      "3 * 2 ^ 51 + 1"]
  by (simp add: powr_neg_numeral)

lemma rte_tie: "rte (of_int n + 1 / 2) = (if even n then n else n + 1)"
proof -
  have "\<lfloor>of_int n + 1 / 2 :: real\<rfloor> = n"
    by (simp add: floor_eq_iff)
  then show ?thesis
    by (simp add: rte_def)
qed

lemma ln_8: "ln (8::real) = 3 * ln 2"
proof -
  have "ln (8::real) = ln (2 ^ 3)" by simp
  also have "\<dots> = 3 * ln 2" by (simp only: ln_realpow)
  finally show ?thesis .
qed

lemma fl_ln_2: "fl (ln 2) = Fin (6243314768165359 / 2 ^ 53)"
  using fl_nearest [of "- 1" "ln 2" 6243314768165359] ln2_lower ln2_upper
  by (simp add: powr_neg_numeral)

lemma fl_ln_8: "fl (ln 8) = Fin (4682486076124019 / 2 ^ 51)"
  using fl_nearest [of 1 "3 * ln 2" 4682486076124019] ln2_lower ln2_upper
  by (simp add: powr_neg_numeral ln_8)

lemma fl_quotient_2:
  "fl (4682486076124019 / 2 ^ 51 / (6243314768165359 / 2 ^ 53)) = Fin 3"
  using fl_nearest [of 1 "4682486076124019 / 2 ^ 51 / (6243314768165359 / 2 ^ 53)" "3 * 2 ^ 51"]
  by (simp add: powr_neg_numeral)

lemma fl_above_7: "fl (7 + 1 / 2 ^ 50) = Fin (7 + 1 / 2 ^ 50)"
  using fl_exact [of 2 "7 + 1 / 2 ^ 50" "7 * 2 ^ 50 + 1"] by (simp add: powr_neg_numeral)

lemma fl_above_8: "fl (7 + 1 / 2 ^ 50 + 1) = Fin 8"
proof -
  have "(7 + 1 / 2 ^ 50 + 1) / 2 powr of_int (3 - 52) = of_int (2 ^ 52) + (1 / 2 :: real)"
    by (simp add: powr_neg_numeral)
  then have "rte ((7 + 1 / 2 ^ 50 + 1) / 2 powr of_int (3 - 52)) = 2 ^ 52"
    by (simp only: rte_tie) simp
  then have "round_double (7 + 1 / 2 ^ 50 + 1) = 8"
    using round_double_binade [of 3 "7 + 1 / 2 ^ 50 + 1"] by (simp add: powr_neg_numeral)
  then show ?thesis by (simp add: fl_def)
qed

lemma fl_pow_1000: "fl (2 ^ 1000) = Fin (2 ^ 1000)"
  using fl_exact [of 1000 "2 ^ 1000" "2 ^ 52"] by simp

text \<open>
  At \<open>(31, 1, 5)\<close> the argument of the logarithm is exactly 125 and three layers reach
  the thickness, \<open>S(3) = 31\<close>; the doubles of \<open>ln 125\<close> and \<open>ln 5\<close> have the quotient
  \<open>3 + 2\<^sup>-\<^sup>5\<^sup>1\<close>, and the ceiling is 4. At \<open>(7 + 2\<^sup>-\<^sup>5\<^sup>0, 1, 2)\<close> the sum \<open>T + 1\<close> rounds to 8,
  the quotient of the doubles of \<open>ln 8\<close> and \<open>ln 2\<close> rounds to 3, and three layers are
  returned although \<open>S(3) = 7 < T\<close>. At \<open>(2\<^sup>1\<^sup>0\<^sup>0\<^sup>0, 2\<^sup>-\<^sup>1\<^sup>0\<^sup>0\<^sup>0, 2)\<close> the division overflows to
  infinity and \<^verbatim>\<open>math.ceil\<close> raises.
\<close>

lemma prism_cells_31_1_5: "calculate_prism_layer_cells 31 1 5 = Inr 4"
proof -
  have s: "py_sub (Fin 5) (Fin 1) = Fin 4"
    using fl_4 by (simp add: py_sub_def)
  have m: "py_mul (Fin 31) (Fin 4) = Fin 124"
    using fl_124 by simp
  have d: "py_div (Fin 124) (Fin 1) = Inr (Fin 124)"
    using fl_124 by simp
  have a: "py_add (Fin 124) (Fin 1) = Fin 125"
    using fl_125 by simp
  have l1: "py_log (Fin 125) = Inr (Fin (5436197987035623 / 2 ^ 50))"
    using fl_ln_125 by simp
  have l2: "py_log (Fin 5) = Inr (Fin (7248263982714163 / 2 ^ 52))"
    using fl_ln_5 by simp
  have q: "py_div (Fin (5436197987035623 / 2 ^ 50)) (Fin (7248263982714163 / 2 ^ 52)) =
      Inr (Fin (3 + 1 / 2 ^ 51))"
    using fl_quotient_5 by simp
  have c: "\<lceil>3 + 1 / 2 ^ 51 :: real\<rceil> = 4"
    by (simp add: ceiling_eq_iff)
  show ?thesis
    unfolding calculate_prism_layer_cells_def s m d sum.case a l1 l2 q py_ceil.simps c by simp
qed

lemma prism_cells_above_7: "calculate_prism_layer_cells (7 + 1 / 2 ^ 50) 1 2 = Inr 3"
proof -
  have s: "py_sub (Fin 2) (Fin 1) = Fin 1"
    by (simp add: py_sub_def fl_one)
  have m: "py_mul (Fin (7 + 1 / 2 ^ 50)) (Fin 1) = Fin (7 + 1 / 2 ^ 50)"
    using fl_above_7 by simp
  have d: "py_div (Fin (7 + 1 / 2 ^ 50)) (Fin 1) = Inr (Fin (7 + 1 / 2 ^ 50))"
    using fl_above_7 by simp
  have a: "py_add (Fin (7 + 1 / 2 ^ 50)) (Fin 1) = Fin 8"
    using fl_above_8 by simp
  have l1: "py_log (Fin 8) = Inr (Fin (4682486076124019 / 2 ^ 51))"
    using fl_ln_8 by simp
  have l2: "py_log (Fin 2) = Inr (Fin (6243314768165359 / 2 ^ 53))"
    using fl_ln_2 by simp
  have q: "py_div (Fin (4682486076124019 / 2 ^ 51)) (Fin (6243314768165359 / 2 ^ 53)) =
      Inr (Fin 3)"
    using fl_quotient_2 by simp
  show ?thesis
    unfolding calculate_prism_layer_cells_def s m d sum.case a l1 l2 q py_ceil.simps by simp
qed

lemma prism_cells_overflow:
  "calculate_prism_layer_cells (2 ^ 1000) (1 / 2 ^ 1000) 2 = Inl OverflowError"
proof -
  have s: "py_sub (Fin 2) (Fin 1) = Fin 1"
    by (simp add: py_sub_def fl_one)
  have m: "py_mul (Fin (2 ^ 1000)) (Fin 1) = Fin (2 ^ 1000)"
    using fl_pow_1000 by simp
  have d: "py_div (Fin (2 ^ 1000)) (Fin (1 / 2 ^ 1000)) = Inr PInf"
    by (simp add: fl_def)
  have a: "py_add PInf (Fin 1) = PInf"
    by simp
  have l1: "py_log PInf = Inr PInf"
    by simp
  have l2: "py_log (Fin 2) = Inr (Fin (6243314768165359 / 2 ^ 53))"
    using fl_ln_2 by simp
  have q: "py_div PInf (Fin (6243314768165359 / 2 ^ 53)) = Inr PInf"
    by (simp add: signed_inf_def)
  show ?thesis
    unfolding calculate_prism_layer_cells_def s m d sum.case a l1 l2 q py_ceil.simps by simp
qed

text \<open>The same overflow at \<open>(10\<^sup>3\<^sup>0\<^sup>0, 10\<^sup>-\<^sup>3\<^sup>0\<^sup>0, 2)\<close>.\<close>

lemma prism_cells_overflow_decimal:
  "calculate_prism_layer_cells (10 ^ 300) (1 / 10 ^ 300) 2 = Inl OverflowError"
proof -
  define b where "b = round_double (10 ^ 300)"
  have "2 powr of_int 996 \<le> round_double (10 ^ 300)"
    by (rule round_double_ge_pow) simp_all
  then have b: "2 ^ 996 \<le> b"
    by (simp add: b_def)
  have s: "py_sub (Fin 2) (Fin 1) = Fin 1"
    by (simp add: py_sub_def fl_one)
  have m: "py_mul (Fin (10 ^ 300)) (Fin 1) = Fin b"
    by (simp add: fl_def b_def)
  have "2 ^ 996 * 10 ^ 300 \<le> b * 10 ^ 300"
    using b by (intro mult_right_mono) simp_all
  then have "2 ^ 1024 - 2 ^ 970 \<le> b / (1 / 10 ^ 300)"
    by simp
  then have d: "py_div (Fin b) (Fin (1 / 10 ^ 300)) = Inr PInf"
    by (simp add: fl_def)
  have a: "py_add PInf (Fin 1) = PInf"
    by simp
  have l1: "py_log PInf = Inr PInf"
    by simp
  have l2: "py_log (Fin 2) = Inr (Fin (6243314768165359 / 2 ^ 53))"
    using fl_ln_2 by simp
  have q: "py_div PInf (Fin (6243314768165359 / 2 ^ 53)) = Inr PInf"
    by (simp add: signed_inf_def)
  show ?thesis
    unfolding calculate_prism_layer_cells_def s m d sum.case a l1 l2 q py_ceil.simps by simp
qed

text \<open>
  Claim C1 says that for every \<open>T > 0\<close>, \<open>h\<^sub>0 > 0\<close> and \<open>r > 1\<close> the estimator returns the
  least \<open>n\<close> with \<open>S(n) \<ge> T\<close>, with \<open>S(n - 1) < T\<close>, and fails only on the guard. The
  source does not: it returns 4 at \<open>(31, 1, 5)\<close>, where \<open>S(3) = 31\<close> reaches \<open>T\<close>; it
  returns 3 at \<open>(7 + 2\<^sup>-\<^sup>5\<^sup>0, 1, 2)\<close>, where \<open>S(3) = 7\<close> does not reach \<open>T\<close>; and past the
  guard it raises \<^verbatim>\<open>OverflowError\<close> at \<open>(2\<^sup>1\<^sup>0\<^sup>0\<^sup>0, 2\<^sup>-\<^sup>1\<^sup>0\<^sup>0\<^sup>0, 2)\<close>.
\<close>

theorem prism_layer_cells_not_minimal:
  "calculate_prism_layer_cells 31 1 5 = Inr 4 \<and> 31 \<le> spec_geometric_sum 1 5 3 \<and>
   calculate_prism_layer_cells (7 + 1 / 2 ^ 50) 1 2 = Inr 3 \<and>
   spec_geometric_sum 1 2 3 < 7 + 1 / 2 ^ 50 \<and>
   calculate_prism_layer_cells (2 ^ 1000) (1 / 2 ^ 1000) 2 = Inl OverflowError"
proof (intro conjI)
  show "calculate_prism_layer_cells 31 1 5 = Inr 4"
    by (rule prism_cells_31_1_5)
  show "31 \<le> spec_geometric_sum 1 5 3"
    by (simp add: spec_geometric_sum_def)
  show "calculate_prism_layer_cells (7 + 1 / 2 ^ 50) 1 2 = Inr 3"
    by (rule prism_cells_above_7)
  show "spec_geometric_sum 1 2 3 < 7 + 1 / 2 ^ 50"
    by (simp add: spec_geometric_sum_def)
  show "calculate_prism_layer_cells (2 ^ 1000) (1 / 2 ^ 1000) 2 = Inl OverflowError"
    by (rule prism_cells_overflow)
qed


text \<open>
  The guard's \<^verbatim>\<open>ValueError\<close> is raised on the guard only: the other exceptions of line 99
  are \<^verbatim>\<open>ZeroDivisionError\<close>, \<^verbatim>\<open>OverflowError\<close> and \<^verbatim>\<open>ValueError\<close> with another message.
\<close>

lemma py_div_error: "py_div x y = Inl e \<Longrightarrow> e = ZeroDivisionError"
  by (cases y; cases x) (auto split: if_splits)

lemma py_log_error: "py_log x = Inl e \<Longrightarrow> e = ValueError ''math domain error''"
  by (cases x) (auto split: if_splits)

lemma py_ceil_error:
  "py_ceil x = Inl e \<Longrightarrow>
     e = OverflowError \<or> e = ValueError ''cannot convert float NaN to integer''"
  by (cases x) auto

lemma prism_cells_guard_error:
  "calculate_prism_layer_cells T h0 r =
     Inl (ValueError ''Invalid input values for prism layer calculation'')
   \<longleftrightarrow> (T \<le> 0 \<or> h0 \<le> 0 \<or> r \<le> 1)"
proof (cases "T \<le> 0 \<or> h0 \<le> 0 \<or> r \<le> 1")
  case True
  then show ?thesis by (simp add: calculate_prism_layer_cells_def)
next
  case False
  have "calculate_prism_layer_cells T h0 r \<noteq>
     Inl (ValueError ''Invalid input values for prism layer calculation'')"
    using False unfolding calculate_prism_layer_cells_def
    by (auto simp del: py_div.simps py_log.simps py_ceil.simps split: sum.splits
        dest!: py_div_error py_log_error py_ceil_error)
  with False show ?thesis by simp
qed

text \<open>
  For inputs of moderate size and a growth rate of at least 2 no operation overflows,
  and the call returns.
\<close>

lemma fl_nonneg:
  assumes "0 \<le> x" "x \<le> 2 ^ 1000"
  shows "fl x = Fin (round_double x) \<and> 0 \<le> round_double x \<and> round_double x \<le> 2 * x"
proof -
  have "x < 2 ^ 1024 - 2 ^ 970"
    using assms(2) by simp
  then have "fl x = Fin (round_double x)"
    using assms(1) by (intro fl_Fin) simp_all
  then show ?thesis
    using round_double_nonneg [OF assms(1)] round_double_le_double [OF assms(1)] by simp
qed

lemma round_double_ge_one:
  assumes "1 \<le> x"
  shows "1 \<le> round_double x"
  using round_double_ge_pow [of 0 x] assms by simp

lemma round_double_ge_half:
  assumes "1 / 2 \<le> x"
  shows "1 / 2 \<le> round_double x"
  using round_double_ge_pow [of "- 1" x] assms by simp

lemma prism_cells_returns:
  assumes T: "0 < T" "T \<le> 2 ^ 400" and h: "1 / 2 ^ 400 \<le> h0"
    and r: "2 \<le> r" "r \<le> 2 ^ 100"
  shows "\<exists>n. calculate_prism_layer_cells T h0 r = Inr n"
proof -
  define a where "a = round_double (r + - 1)"
  have fa: "fl (r + - 1) = Fin a" and a1: "1 \<le> a" and a2: "a \<le> 2 ^ 101"
    using fl_nonneg [of "r + - 1"] round_double_ge_one [of "r + - 1"] r
    by (simp_all add: a_def)
  define b where "b = round_double (T * a)"
  have "T * a \<le> 2 ^ 400 * 2 ^ 101"
    using T a1 a2 by (intro mult_mono) simp_all
  then have ta: "0 \<le> T * a" "T * a \<le> 2 ^ 501"
    using T a1 by simp_all
  have fb: "fl (T * a) = Fin b" and b0: "0 \<le> b" and b2: "b \<le> 2 ^ 502"
    using fl_nonneg [OF ta(1)] ta(2) by (simp_all add: b_def)
  have hp: "0 < h0"
    using h by (simp add: less_le_trans [of 0 "1 / 2 ^ 400"])
  define c where "c = round_double (b / h0)"
  have "b / h0 \<le> b / (1 / 2 ^ 400)"
    using h b0 by (intro divide_left_mono) simp_all
  also have "\<dots> = b * 2 ^ 400"
    by simp
  also have "\<dots> \<le> 2 ^ 502 * 2 ^ 400"
    using b2 by (intro mult_right_mono) simp_all
  finally have bh: "0 \<le> b / h0" "b / h0 \<le> 2 ^ 902"
    using b0 hp by simp_all
  have fc: "fl (b / h0) = Fin c" and c0: "0 \<le> c" and c2: "c \<le> 2 ^ 903"
    using fl_nonneg [OF bh(1)] bh(2) by (simp_all add: c_def)
  define d where "d = round_double (c + 1)"
  have c1: "1 \<le> c + 1" "0 \<le> c + 1" "c + 1 \<le> 2 ^ 904"
    using c0 c2 by simp_all
  have fd: "fl (c + 1) = Fin d" and d1: "1 \<le> d" and d2: "d \<le> 2 ^ 905"
    using fl_nonneg [OF c1(2)] c1(3) round_double_ge_one [OF c1(1)] by (simp_all add: d_def)
  define e where "e = round_double (ln d)"
  have ld: "0 \<le> ln d" "ln d \<le> 2 ^ 905"
    using d1 d2 ln_bound [of d] by simp_all
  have fe: "fl (ln d) = Fin e" and e0: "0 \<le> e" and e2: "e \<le> 2 ^ 906"
    using fl_nonneg [OF ld(1)] ld(2) by (simp_all add: e_def)
  define f where "f = round_double (ln r)"
  have l2r: "ln 2 \<le> ln r"
    using r(1) by simp
  have lrr: "ln r \<le> r"
    using r(1) by (intro ln_bound) simp
  have lr: "1 / 2 \<le> ln r" "0 \<le> ln r" "ln r \<le> 2 ^ 100"
    using half_le_ln2 l2r lrr r(2) by linarith+
  have ff: "fl (ln r) = Fin f" and f1: "1 / 2 \<le> f"
    using fl_nonneg [OF lr(2)] lr(3) round_double_ge_half [OF lr(1)] by (simp_all add: f_def)
  define g where "g = round_double (e / f)"
  have "e / f \<le> e / (1 / 2)"
    using f1 e0 by (intro divide_left_mono) simp_all
  then have ef: "0 \<le> e / f" "e / f \<le> 2 ^ 907"
    using e0 e2 f1 by simp_all
  have fg: "fl (e / f) = Fin g"
    using fl_nonneg [OF ef(1)] ef(2) by (simp add: g_def)
  have s: "py_sub (Fin r) (Fin 1) = Fin a"
    using fa by (simp add: py_sub_def)
  have m: "py_mul (Fin T) (Fin a) = Fin b"
    using fb by simp
  have q: "py_div (Fin b) (Fin h0) = Inr (Fin c)"
    using fc hp by simp
  have p: "py_add (Fin c) (Fin 1) = Fin d"
    using fd by simp
  have l1: "py_log (Fin d) = Inr (Fin e)"
    using fe d1 by simp
  have l2: "py_log (Fin r) = Inr (Fin f)"
    using ff r(1) by simp
  have v: "py_div (Fin e) (Fin f) = Inr (Fin g)"
    using fg f1 by simp
  have "calculate_prism_layer_cells T h0 r = Inr \<lceil>g\<rceil>"
    unfolding calculate_prism_layer_cells_def s m q sum.case p l1 l2 v py_ceil.simps
    using T(1) hp r(1) by simp
  then show ?thesis by blast
qed

section \<open>The turbulent coefficient\<close>

lemma log10_hundred: "log 10 100 = 2"
  using log_pow_cancel [of 10 2] by simp

lemma cf_schlichting_float:
  assumes "0 < rey" "rey < 1000000000" "0.65 < 2 * log 10 rey"
  shows "cf_schlichting rey = Inr (PyFloat ((2 * log 10 rey - 0.65) powr (- 2.3)))"
  using assms by (simp add: cf_schlichting_def float_pow_def)

lemma cf_schlichting_hundred: "cf_schlichting 100 = Inr (PyFloat (3.35 powr (- 2.3)))"
  using cf_schlichting_float [of 100] by (simp add: log10_hundred)

text \<open>
  The base \<open>2 log\<^sub>1\<^sub>0 Re - 0.65\<close> of the power is zero at \<open>Re = 10\<^sup>0\<^sup>.\<^sup>3\<^sup>2\<^sup>5\<close>, negative below and
  positive above; that point lies between the two guards.
\<close>

lemma zero_base_in_range: "0 < (10::real) powr (13 / 40) \<and> (10::real) powr (13 / 40) < 1000000000"
proof -
  have "(10::real) powr (13 / 40) < 10 powr 9"
    by (simp only: powr_less_cancel_iff)
  also have "(10::real) powr 9 = 1000000000"
    by simp
  finally show ?thesis by simp
qed

lemma base_pos_iff:
  assumes "0 < rey"
  shows "0.65 < 2 * log 10 rey \<longleftrightarrow> 10 powr (13 / 40) < rey"
proof -
  have "0.65 < 2 * log 10 rey \<longleftrightarrow> 13 / 40 < log 10 rey"
    by auto
  also have "\<dots> \<longleftrightarrow> 10 powr (13 / 40) < rey"
    using assms less_log_iff [of 10 rey "13 / 40"] by simp
  finally show ?thesis .
qed

text \<open>
  The two guards: each \<^verbatim>\<open>ValueError\<close> is raised on its own range only, and the two messages
  differ.
\<close>

lemma cf_schlichting_errors:
  "(cf_schlichting rey = Inl (ValueError ''Re must be positive'') \<longleftrightarrow> rey \<le> 0) \<and>
   (cf_schlichting rey =
      Inl (ValueError ''Re out of range for Schlichting correlation (Re < 1e9)'')
    \<longleftrightarrow> 1000000000 \<le> rey)"
  by (auto simp: cf_schlichting_def float_pow_def)

text \<open>
  On exact reals, above \<open>10\<^sup>0\<^sup>.\<^sup>3\<^sup>2\<^sup>5\<close> and below \<open>10\<^sup>9\<close> the coefficient is the real power, it
  is positive, and it decreases strictly. (In doubles the base can round to zero or
  below it for the few \<open>Re\<close> next to \<open>10\<^sup>0\<^sup>.\<^sup>3\<^sup>2\<^sup>5\<close>.)
\<close>

lemma cf_schlichting_positive:
  assumes "10 powr (13 / 40) < rey" "rey < 1000000000"
  shows "cf_schlichting rey = Inr (PyFloat ((2 * log 10 rey - 0.65) powr (- 2.3))) \<and>
         0 < (2 * log 10 rey - 0.65) powr (- 2.3)"
proof -
  have pos: "0 < rey"
    using assms(1) zero_base_in_range by linarith
  then have b: "0.65 < 2 * log 10 rey"
    using assms(1) by (simp only: base_pos_iff)
  then have "0 < (2 * log 10 rey - 0.65) powr (- 2.3)"
    by simp
  with cf_schlichting_float [OF pos assms(2) b] show ?thesis by simp
qed

lemma cf_schlichting_decreasing:
  assumes "10 powr (13 / 40) < r1" "r1 < r2" "r2 < 1000000000"
  shows "(2 * log 10 r2 - 0.65) powr (- 2.3) < (2 * log 10 r1 - 0.65) powr (- 2.3)"
proof -
  have p1: "0 < r1"
    using assms(1) zero_base_in_range by linarith
  then have p2: "0 < r2"
    using assms(2) by linarith
  have b1: "0 < 2 * log 10 r1 - 0.65"
    using base_pos_iff [OF p1] assms(1) by simp
  have "log 10 r1 < log 10 r2"
    using p1 p2 assms(2) by simp
  then have lt: "2 * log 10 r1 - 0.65 < 2 * log 10 r2 - 0.65"
    by simp
  show ?thesis
    by (rule powr_less_mono2_neg [OF _ b1 lt]) simp
qed

text \<open>
  Claim C2 says that for every \<open>0 < Re < 10\<^sup>9\<close> the turbulent skin-friction estimator
  returns a value \<open>Cf > 0\<close> that decreases in \<open>Re\<close>. The source does not do so at
  \<open>Re = 1\<close>, which is inside that range: \<open>log\<^sub>1\<^sub>0 1 = 0\<close>, the base is \<open>- 0.65\<close>, and
  \<^verbatim>\<open>(-0.65) ** -2.3\<close> is a complex number, not a float and not comparable with 0.
\<close>

theorem cf_schlichting_complex_at_one:
  "0 < (1::real) \<and> (1::real) < 1000000000 \<and>
   cf_schlichting 1 =
     Inr (PyComplex (Complex (0.65 powr (- 2.3) * cos (pi * (- 2.3)))
                             (0.65 powr (- 2.3) * sin (pi * (- 2.3))))) \<and>
   (\<forall>c. cf_schlichting 1 \<noteq> Inr (PyFloat c))"
  by (simp add: cf_schlichting_def float_pow_def)

text \<open>
  Claim C6 says that the turbulent estimator fails for \<open>Re \<le> 0\<close> and for \<open>Re \<ge> 10\<^sup>9\<close>
  only, and returns the power between them. Between the guards the source raises
  \<^verbatim>\<open>ZeroDivisionError\<close> where the base is zero, at \<open>Re = 10\<^sup>0\<^sup>.\<^sup>3\<^sup>2\<^sup>5\<close>, and returns a complex
  number where it is negative, as at \<open>Re = 1/10\<close>.
\<close>

theorem cf_schlichting_zero_division:
  "0 < (10::real) powr (13 / 40) \<and> (10::real) powr (13 / 40) < 1000000000 \<and>
   cf_schlichting (10 powr (13 / 40)) = Inl ZeroDivisionError \<and>
   (\<exists>z. cf_schlichting (1 / 10) = Inr (PyComplex z))"
proof -
  have r: "\<not> 1000000000 \<le> (10::real) powr (13 / 40)"
    using zero_base_in_range by linarith
  have "cf_schlichting (10 powr (13 / 40)) = Inl ZeroDivisionError"
    using r by (simp add: cf_schlichting_def float_pow_def)
  moreover have "log 10 (1 / 10) = - 1"
    by (simp add: log_divide)
  then have "\<exists>z. cf_schlichting (1 / 10) = Inr (PyComplex z)"
    by (simp add: cf_schlichting_def float_pow_def)
  ultimately show ?thesis
    using zero_base_in_range by blast
qed

section \<open>The wall-distance estimator\<close>

text \<open>
  With a positive float coefficient, a positive density and a velocity other than zero,
  the square root and the last division are defined and the call returns.
\<close>

lemma ewd_success:
  assumes mu: "mu \<noteq> 0"
    and reg: "regime \<in> {''laminar'', ''turbulent'', ''auto''}"
    and cf: "(if active_regime regime (rho * u_inf * L / mu) t = ''laminar''
              then map_sum id PyFloat (cf_laminar (rho * u_inf * L / mu))
              else cf_schlichting (rho * u_inf * L / mu)) = Inr (PyFloat cf)"
    and pos: "0 < cf" "0 < rho" "u_inf \<noteq> 0"
  shows "estimate_wall_distance u_inf rho mu L y_plus regime t =
     Inr \<lparr>wd_Re = rho * u_inf * L / mu, wd_Cf = cf, wd_tau_w = cf * 0.5 * rho * u_inf ^ 2,
          wd_u_tau = sqrt (cf * 0.5 * rho * u_inf ^ 2 / rho),
          wd_y = y_plus * mu / (rho * sqrt (cf * 0.5 * rho * u_inf ^ 2 / rho)),
          wd_regime = active_regime regime (rho * u_inf * L / mu) t\<rparr>"
proof -
  have q: "0 < cf * 0.5 * rho * u_inf ^ 2 / rho"
    using pos by simp
  have nz: "rho * sqrt (cf * 0.5 * rho * u_inf ^ 2 / rho) \<noteq> 0"
    using q pos by simp
  have nn: "\<not> cf * 0.5 * rho * u_inf ^ 2 / rho < 0"
    using q by linarith
  show ?thesis
    unfolding estimate_wall_distance_def Let_def
    using mu reg cf nz nn pos(2) by (simp del: insert_iff)
qed

text \<open>What a returned dictionary says about the call that built it.\<close>

lemma ewd_Inr_fields:
  assumes "estimate_wall_distance u_inf rho mu L y_plus regime t = Inr res"
  shows "mu \<noteq> 0 \<and> wd_Re res = rho * u_inf * L / mu \<and>
         wd_regime res = active_regime regime (wd_Re res) t \<and>
         (if wd_regime res = ''laminar'' then cf_laminar (wd_Re res) = Inr (wd_Cf res)
          else cf_schlichting (wd_Re res) = Inr (PyFloat (wd_Cf res)))"
proof -
  have mu: "mu \<noteq> 0"
    using assms by (auto simp: estimate_wall_distance_def)
  define rey where "rey = rho * u_inf * L / mu"
  define act where "act = active_regime regime rey t"
  define c where "c = (if act = ''laminar'' then map_sum id PyFloat (cf_laminar rey)
                else cf_schlichting rey)"
  have e: "estimate_wall_distance u_inf rho mu L y_plus regime t =
     (if regime \<notin> {''laminar'', ''turbulent'', ''auto''} then
          Inl (ValueError (''regime must be 'laminar', 'turbulent', or 'auto'' @ [CHR 0x27]))
        else
          case c of
            Inl e \<Rightarrow> Inl e
          | Inr (PyComplex z) \<Rightarrow> (if rho = 0 then Inl ZeroDivisionError else Inl TypeError)
          | Inr (PyFloat cf) \<Rightarrow>
              let tau_w = cf * 0.5 * rho * u_inf ^ 2 in
              if rho = 0 then Inl ZeroDivisionError
              else if tau_w / rho < 0 then Inl (ValueError ''math domain error'')
              else
                let u_tau = sqrt (tau_w / rho) in
                if rho * u_tau = 0 then Inl ZeroDivisionError
                else Inr \<lparr>wd_Re = rey, wd_Cf = cf, wd_tau_w = tau_w, wd_u_tau = u_tau,
                          wd_y = y_plus * mu / (rho * u_tau), wd_regime = act\<rparr>)"
    unfolding estimate_wall_distance_def c_def act_def rey_def Let_def using mu by simp
  from assms obtain cf where c: "c = Inr (PyFloat cf)"
    and r: "wd_Re res = rey" "wd_Cf res = cf" "wd_regime res = act"
    unfolding e by (auto simp: Let_def split: if_splits sum.splits pynum.splits)
  have i: "if act = ''laminar'' then cf_laminar rey = Inr cf
        else cf_schlichting rey = Inr (PyFloat cf)"
    using c unfolding c_def by (cases "cf_laminar rey") (auto split: if_splits)
  have "wd_Re res = rho * u_inf * L / mu"
    using r(1) by (simp add: rey_def)
  moreover have "wd_regime res = active_regime regime (wd_Re res) t"
    using r(1,3) by (simp add: act_def)
  moreover have "if wd_regime res = ''laminar'' then cf_laminar (wd_Re res) = Inr (wd_Cf res)
          else cf_schlichting (wd_Re res) = Inr (PyFloat (wd_Cf res))"
    using i by (simp add: r)
  ultimately show ?thesis
    using mu by blast
qed

text \<open>
  Claim C5. With regime \<^verbatim>\<open>"auto"\<close>, for every threshold \<open>t\<close> and every Reynolds number,
  \<open>Re < t\<close> resolves to \<^verbatim>\<open>"laminar"\<close> and \<open>Re \<ge> t\<close> to \<^verbatim>\<open>"turbulent"\<close>; \<open>Re = t\<close> resolves
  to \<^verbatim>\<open>"turbulent"\<close>. Whenever the estimator returns, the \<^verbatim>\<open>regime\<close> entry of the result
  is this resolved regime, for the \<open>Re\<close> of the result, and the coefficient of the result
  is the one of that regime.
\<close>

theorem auto_regime_selection:
  "active_regime ''auto'' rey t = (if rey < t then ''laminar'' else ''turbulent'') \<and>
   active_regime ''auto'' t t = ''turbulent'' \<and>
   (estimate_wall_distance u_inf rho mu L y_plus ''auto'' t = Inr res \<longrightarrow>
      wd_Re res = rho * u_inf * L / mu \<and>
      wd_regime res = (if wd_Re res < t then ''laminar'' else ''turbulent'') \<and>
      (if wd_Re res < t then cf_laminar (wd_Re res) = Inr (wd_Cf res)
       else cf_schlichting (wd_Re res) = Inr (PyFloat (wd_Cf res))))"
proof (intro conjI impI)
  assume a: "estimate_wall_distance u_inf rho mu L y_plus ''auto'' t = Inr res"
  note f = ewd_Inr_fields [OF a]
  from f have f4: "if wd_regime res = ''laminar'' then cf_laminar (wd_Re res) = Inr (wd_Cf res)
          else cf_schlichting (wd_Re res) = Inr (PyFloat (wd_Cf res))"
    by blast
  show "wd_Re res = rho * u_inf * L / mu" using f by simp
  show reg: "wd_regime res = (if wd_Re res < t then ''laminar'' else ''turbulent'')"
    using f by (simp add: active_regime_def)
  show "if wd_Re res < t then cf_laminar (wd_Re res) = Inr (wd_Cf res)
       else cf_schlichting (wd_Re res) = Inr (PyFloat (wd_Cf res))"
  proof (cases "wd_Re res < t")
    case True
    then have "wd_regime res = ''laminar''" using reg by simp
    with f4 True show ?thesis by simp
  next
    case False
    then have "wd_regime res = ''turbulent''" using reg by simp
    with f4 False show ?thesis by simp
  qed
qed (simp_all add: active_regime_def)

text \<open>Two calls that return: \<open>Re = 100\<close> at the threshold 100, and \<open>Re = 1\<close> below the default.\<close>

lemma ewd_at_threshold:
  "estimate_wall_distance 1 100 1 1 1 ''auto'' 100 =
     Inr \<lparr>wd_Re = 100, wd_Cf = 3.35 powr (- 2.3), wd_tau_w = 3.35 powr (- 2.3) * 0.5 * 100 * 1 ^ 2,
          wd_u_tau = sqrt (3.35 powr (- 2.3) * 0.5 * 100 * 1 ^ 2 / 100),
          wd_y = 1 * 1 / (100 * sqrt (3.35 powr (- 2.3) * 0.5 * 100 * 1 ^ 2 / 100)),
          wd_regime = ''turbulent''\<rparr>"
  using ewd_success [of 1 "''auto''" 100 1 1 100 "3.35 powr (- 2.3)" 1]
  by (simp add: active_regime_def cf_schlichting_hundred)

lemma ewd_below_threshold:
  "estimate_wall_distance 1 1 1 1 1 ''auto'' 500000 =
     Inr \<lparr>wd_Re = 1, wd_Cf = 1.328, wd_tau_w = 1.328 * 0.5 * 1 * 1 ^ 2,
          wd_u_tau = sqrt (1.328 * 0.5 * 1 * 1 ^ 2 / 1),
          wd_y = 1 * 1 / (1 * sqrt (1.328 * 0.5 * 1 * 1 ^ 2 / 1)),
          wd_regime = ''laminar''\<rparr>"
  using ewd_success [of 1 "''auto''" 1 1 1 500000 "1.328" 1]
  by (simp add: active_regime_def cf_laminar_def)

theorem auto_regime_selection_witness:
  "(\<exists>res. estimate_wall_distance 1 100 1 1 1 ''auto'' 100 = Inr res \<and> wd_Re res = 100 \<and>
      wd_regime res = ''turbulent'' \<and> cf_schlichting 100 = Inr (PyFloat (wd_Cf res))) \<and>
   (\<exists>res. estimate_wall_distance 1 1 1 1 1 ''auto'' 500000 = Inr res \<and> wd_Re res = 1 \<and>
      wd_regime res = ''laminar'' \<and> cf_laminar 1 = Inr (wd_Cf res))"
proof -
  obtain r1 where r1: "estimate_wall_distance 1 100 1 1 1 ''auto'' 100 = Inr r1"
    using ewd_at_threshold by blast
  obtain r2 where r2: "estimate_wall_distance 1 1 1 1 1 ''auto'' 500000 = Inr r2"
    using ewd_below_threshold by blast
  have "wd_Re r1 = 100 \<and> wd_regime r1 = ''turbulent'' \<and>
        cf_schlichting 100 = Inr (PyFloat (wd_Cf r1))"
    using auto_regime_selection [of 0 100 1 100 1 1 1 r1] r1 by auto
  moreover have "wd_Re r2 = 1 \<and> wd_regime r2 = ''laminar'' \<and> cf_laminar 1 = Inr (wd_Cf r2)"
    using auto_regime_selection [of 0 500000 1 1 1 1 1 r2] r2 by auto
  ultimately show ?thesis
    using r1 r2 by blast
qed

text \<open>
  On exact reals the estimator returns a positive wall distance for positive inputs when
  the resolved regime is laminar, or \<open>Re\<close> lies above \<open>10\<^sup>0\<^sup>.\<^sup>3\<^sup>2\<^sup>5\<close> and below \<open>10\<^sup>9\<close>.
\<close>

lemma estimate_wall_distance_positive:
  assumes pos: "0 < u_inf" "0 < rho" "0 < mu" "0 < L" "0 < y_plus"
    and reg: "regime \<in> {''laminar'', ''turbulent'', ''auto''}"
    and dom: "active_regime regime (rho * u_inf * L / mu) t = ''laminar'' \<or>
              (10 powr (13 / 40) < rho * u_inf * L / mu \<and> rho * u_inf * L / mu < 1000000000)"
  shows "\<exists>res. estimate_wall_distance u_inf rho mu L y_plus regime t = Inr res \<and> 0 < wd_y res"
proof -
  define rey where "rey = rho * u_inf * L / mu"
  have rp: "0 < rey"
    using pos by (simp add: rey_def)
  have "\<exists>cf. (if active_regime regime rey t = ''laminar''
              then map_sum id PyFloat (cf_laminar rey)
              else cf_schlichting rey) = Inr (PyFloat cf) \<and> 0 < cf"
  proof (cases "active_regime regime rey t = ''laminar''")
    case True
    then show ?thesis using rp by (simp add: cf_laminar_def)
  next
    case False
    then have "10 powr (13 / 40) < rey \<and> rey < 1000000000"
      using dom by (simp add: rey_def)
    then show ?thesis
      using False cf_schlichting_positive [of rey] by simp
  qed
  then obtain cf where cf: "(if active_regime regime rey t = ''laminar''
              then map_sum id PyFloat (cf_laminar rey)
              else cf_schlichting rey) = Inr (PyFloat cf)" and cp: "0 < cf"
    by blast
  have mu: "mu \<noteq> 0" and u: "u_inf \<noteq> 0"
    using pos by simp_all
  note s = ewd_success [OF mu reg cf [unfolded rey_def] cp pos(2) u, of y_plus]
  have "0 < y_plus * mu / (rho * sqrt (cf * 0.5 * rho * u_inf ^ 2 / rho))"
    using pos cp by simp
  then show ?thesis
    using s by simp
qed

text \<open>
  Claim C4 says that the wall-distance estimator returns a positive \<open>y\<close> for positive
  inputs whose \<open>Re\<close> is in the domain of the resolved regime, \<open>0 < Re < 10\<^sup>9\<close> for the
  turbulent one. With all five inputs 1 and the regime \<^verbatim>\<open>"turbulent"\<close>, \<open>Re = 1\<close>, the
  coefficient is complex and \<^verbatim>\<open>math.sqrt\<close> raises \<^verbatim>\<open>TypeError\<close>.
\<close>

theorem estimate_wall_distance_type_error:
  "estimate_wall_distance 1 1 1 1 1 ''turbulent'' 500000 = Inl TypeError"
  by (simp add: estimate_wall_distance_def active_regime_def cf_schlichting_def float_pow_def)

section \<open>The boundary-layer height\<close>

text \<open>
  Claim C3. For every length and every \<open>Re > 0\<close> the boundary-layer height estimator
  returns \<open>4.91 L / sqrt Re\<close> when \<open>Re < 5\<times>10\<^sup>5\<close> and \<open>0.16 L / Re\<^sup>1\<^sup>/\<^sup>7\<close> when
  \<open>Re \<ge> 5\<times>10\<^sup>5\<close>. The cutoff is the constant \<open>5\<times>10\<^sup>5\<close> of the function, which has no
  threshold parameter; it may differ from the caller's \<^verbatim>\<open>transition_Re\<close>: for
  \<open>t \<le> Re < 5\<times>10\<^sup>5\<close> the regime selection says turbulent while the height is the laminar
  one, and for \<open>5\<times>10\<^sup>5 \<le> Re < t\<close> the selection says laminar while the height is the
  turbulent one.
\<close>

theorem boundary_layer_height_correct:
  "(0 < rey \<and> rey < 500000 \<longrightarrow>
      calculate_boundary_layer_height len rey = Inr (4.91 * len / sqrt rey)) \<and>
   (500000 \<le> rey \<longrightarrow>
      calculate_boundary_layer_height len rey = Inr (0.16 * len / rey powr (1 / 7))) \<and>
   (0 < rey \<and> t \<le> rey \<and> rey < 500000 \<longrightarrow>
      active_regime ''auto'' rey t = ''turbulent'' \<and>
      calculate_boundary_layer_height len rey = Inr (4.91 * len / sqrt rey)) \<and>
   (500000 \<le> rey \<and> rey < t \<longrightarrow>
      active_regime ''auto'' rey t = ''laminar'' \<and>
      calculate_boundary_layer_height len rey = Inr (0.16 * len / rey powr (1 / 7)))"
  by (simp add: calculate_boundary_layer_height_def active_regime_def)

theorem boundary_layer_height_correct_witness:
  "calculate_boundary_layer_height 2 4 = Inr 4.91 \<and>
   calculate_boundary_layer_height 2 1000000 = Inr (0.16 * 2 / 1000000 powr (1 / 7)) \<and>
   active_regime ''auto'' 4 1 = ''turbulent'' \<and>
   active_regime ''auto'' 1000000 2000000 = ''laminar''"
  using boundary_layer_height_correct [of 4 2 1]
    boundary_layer_height_correct [of 1000000 2 2000000]
  by simp

section \<open>Error propagation in the orchestrator\<close>

text \<open>
  Claim C8. The orchestrator fails with an error \<open>e\<close> exactly when one of the three
  stages, called in order on the values threaded so far, fails with \<open>e\<close>: the error is
  the stage's own, and a failing call returns nothing else. It returns \<open>m\<close> exactly when
  all three stages return, and \<open>m\<close> then holds the stage outputs: the wall distance and
  the details of stage 1, the thickness of stage 2 computed from the length and the \<open>Re\<close>
  of stage 1, and the count of stage 3 computed from that thickness and the wall
  distance of stage 1.
\<close>

theorem orchestrator_propagates:
  "(calculate_all_parameters len u_inf rho mu y_plus growth_rate = Inl e \<longleftrightarrow>
      estimate_wall_distance u_inf rho mu len y_plus ''auto'' 500000 = Inl e \<or>
      (\<exists>res. estimate_wall_distance u_inf rho mu len y_plus ''auto'' 500000 = Inr res \<and>
         (calculate_boundary_layer_height len (wd_Re res) = Inl e \<or>
          (\<exists>tt. calculate_boundary_layer_height len (wd_Re res) = Inr tt \<and>
             calculate_prism_layer_cells tt (wd_y res) growth_rate = Inl e)))) \<and>
   (calculate_all_parameters len u_inf rho mu y_plus growth_rate = Inr m \<longleftrightarrow>
      (\<exists>res tt n. estimate_wall_distance u_inf rho mu len y_plus ''auto'' 500000 = Inr res \<and>
         calculate_boundary_layer_height len (wd_Re res) = Inr tt \<and>
         calculate_prism_layer_cells tt (wd_y res) growth_rate = Inr n \<and>
         m = \<lparr>wall_distance = wd_y res, total_boundary_layer_thickness = tt,
               number_of_prism_layers = n, estimation_details = res\<rparr>))"
  unfolding calculate_all_parameters_def
  by (cases "estimate_wall_distance u_inf rho mu len y_plus ''auto'' 500000")
     (auto split: sum.splits)

text \<open>Stage results at concrete inputs.\<close>

lemma ewd_negative_velocity:
  "estimate_wall_distance (- 1) 1 1 1 1 ''auto'' 500000 = Inl (ValueError ''Re must be positive'')"
  by (simp add: estimate_wall_distance_def active_regime_def cf_laminar_def)

lemma height_at_one: "calculate_boundary_layer_height 1 1 = Inr 4.91"
  by (simp add: calculate_boundary_layer_height_def)

lemma prism_growth_one:
  "calculate_prism_layer_cells T h0 1 =
     Inl (ValueError ''Invalid input values for prism layer calculation'')"
  by (simp add: calculate_prism_layer_cells_def)

lemma wall_distance_example_bound:
  "1 / 2 ^ 400 \<le> 1 * 1 / (1 * sqrt (1.328 * 0.5 * 1 * 1 ^ 2 / 1 :: real))"
proof -
  have "sqrt (83 / 125 :: real) \<le> 1"
    by simp
  moreover have "(1::real) \<le> 2 ^ 400"
    by simp
  ultimately have "sqrt (83 / 125 :: real) \<le> 2 ^ 400"
    by linarith
  then show ?thesis
    by simp
qed

lemma prism_at_example:
  "\<exists>n. calculate_prism_layer_cells 4.91 (1 * 1 / (1 * sqrt (1.328 * 0.5 * 1 * 1 ^ 2 / 1))) 2 = Inr n"
  using prism_cells_returns [OF _ _ wall_distance_example_bound, of "4.91" 2] by simp

theorem orchestrator_propagates_witness:
  "calculate_all_parameters 1 (- 1) 1 1 1 2 = Inl (ValueError ''Re must be positive'') \<and>
   calculate_all_parameters 1 1 1 1 1 1 =
     Inl (ValueError ''Invalid input values for prism layer calculation'') \<and>
   (\<exists>n. calculate_all_parameters 1 1 1 1 1 2 =
     Inr \<lparr>wall_distance = 1 * 1 / (1 * sqrt (1.328 * 0.5 * 1 * 1 ^ 2 / 1)),
          total_boundary_layer_thickness = 4.91, number_of_prism_layers = n,
          estimation_details =
            \<lparr>wd_Re = 1, wd_Cf = 1.328, wd_tau_w = 1.328 * 0.5 * 1 * 1 ^ 2,
             wd_u_tau = sqrt (1.328 * 0.5 * 1 * 1 ^ 2 / 1),
             wd_y = 1 * 1 / (1 * sqrt (1.328 * 0.5 * 1 * 1 ^ 2 / 1)),
             wd_regime = ''laminar''\<rparr>\<rparr>)"
proof -
  define res where "res = \<lparr>wd_Re = 1, wd_Cf = 1.328, wd_tau_w = 1.328 * 0.5 * 1 * 1 ^ 2,
             wd_u_tau = sqrt (1.328 * 0.5 * 1 * 1 ^ 2 / 1),
             wd_y = 1 * 1 / (1 * sqrt (1.328 * 0.5 * 1 * 1 ^ 2 / 1)),
             wd_regime = ''laminar''\<rparr>"
  have e: "estimate_wall_distance 1 1 1 1 1 ''auto'' 500000 = Inr res"
    unfolding res_def by (rule ewd_below_threshold)
  have h: "calculate_boundary_layer_height 1 (wd_Re res) = Inr 4.91"
    using height_at_one by (simp add: res_def)
  obtain n where p: "calculate_prism_layer_cells 4.91 (wd_y res) 2 = Inr n"
    using prism_at_example by (auto simp: res_def)
  have first: "calculate_all_parameters 1 (- 1) 1 1 1 2 = Inl (ValueError ''Re must be positive'')"
    using orchestrator_propagates [of 1 "- 1" 1 1 1 2 "ValueError ''Re must be positive''"]
      ewd_negative_velocity by blast
  have third: "calculate_all_parameters 1 1 1 1 1 1 =
     Inl (ValueError ''Invalid input values for prism layer calculation'')"
    using orchestrator_propagates [of 1 1 1 1 1 1
        "ValueError ''Invalid input values for prism layer calculation''"]
      e h prism_growth_one [of "4.91" "wd_y res"] by blast
  have "calculate_all_parameters 1 1 1 1 1 2 =
     Inr \<lparr>wall_distance = wd_y res, total_boundary_layer_thickness = 4.91,
          number_of_prism_layers = n, estimation_details = res\<rparr>"
    using orchestrator_propagates [of 1 1 1 1 1 2 TypeError
        "\<lparr>wall_distance = wd_y res, total_boundary_layer_thickness = 4.91,
          number_of_prism_layers = n, estimation_details = res\<rparr>"] e h p
    by blast
  then have "\<exists>n. calculate_all_parameters 1 1 1 1 1 2 =
     Inr \<lparr>wall_distance = 1 * 1 / (1 * sqrt (1.328 * 0.5 * 1 * 1 ^ 2 / 1)),
          total_boundary_layer_thickness = 4.91, number_of_prism_layers = n,
          estimation_details =
            \<lparr>wd_Re = 1, wd_Cf = 1.328, wd_tau_w = 1.328 * 0.5 * 1 * 1 ^ 2,
             wd_u_tau = sqrt (1.328 * 0.5 * 1 * 1 ^ 2 / 1),
             wd_y = 1 * 1 / (1 * sqrt (1.328 * 0.5 * 1 * 1 ^ 2 / 1)),
             wd_regime = ''laminar''\<rparr>\<rparr>"
    unfolding res_def by (intro exI [of _ n]) simp
  with first third show ?thesis by blast
qed

section \<open>Regime and boundary-layer branch in the orchestrator\<close>

text \<open>A returned orchestrator result holds the results of its three stages.\<close>

lemma cap_Inr_stages:
  assumes "calculate_all_parameters len u_inf rho mu y_plus growth_rate = Inr m"
  shows "estimate_wall_distance u_inf rho mu len y_plus ''auto'' 500000 =
           Inr (estimation_details m) \<and>
         calculate_boundary_layer_height len (wd_Re (estimation_details m)) =
           Inr (total_boundary_layer_thickness m) \<and>
         calculate_prism_layer_cells (total_boundary_layer_thickness m)
           (wd_y (estimation_details m)) growth_rate = Inr (number_of_prism_layers m) \<and>
         wall_distance m = wd_y (estimation_details m)"
  using assms unfolding calculate_all_parameters_def
  by (auto split: sum.splits)

text \<open>
  Claim C10. The orchestrator selects the regime with \<^verbatim>\<open>"auto"\<close> and the default
  threshold \<open>5\<times>10\<^sup>5\<close>, the cutoff of the boundary-layer height. In every result it
  returns, the recorded regime is \<^verbatim>\<open>"laminar"\<close> exactly when \<open>Re < 5\<times>10\<^sup>5\<close>, which is the
  condition of the laminar branch of the height, and \<^verbatim>\<open>"turbulent"\<close> exactly when
  \<open>Re \<ge> 5\<times>10\<^sup>5\<close>; the thickness is the laminar correlation in the first case and the
  turbulent one in the second.
\<close>

theorem orchestrator_regime_agrees:
  assumes "calculate_all_parameters len u_inf rho mu y_plus growth_rate = Inr m"
  shows "(wd_regime (estimation_details m) = ''laminar'' \<longleftrightarrow>
            wd_Re (estimation_details m) < 500000) \<and>
         (wd_regime (estimation_details m) = ''turbulent'' \<longleftrightarrow>
            500000 \<le> wd_Re (estimation_details m)) \<and>
         total_boundary_layer_thickness m =
           (if wd_regime (estimation_details m) = ''laminar''
            then 4.91 * len / sqrt (wd_Re (estimation_details m))
            else 0.16 * len / wd_Re (estimation_details m) powr (1 / 7))"
proof -
  define res where "res = estimation_details m"
  have e: "estimate_wall_distance u_inf rho mu len y_plus ''auto'' 500000 = Inr res"
    and h: "calculate_boundary_layer_height len (wd_Re res) = Inr (total_boundary_layer_thickness m)"
    using cap_Inr_stages [OF assms] by (simp_all add: res_def)
  have reg: "wd_regime res = (if wd_Re res < 500000 then ''laminar'' else ''turbulent'')"
    using ewd_Inr_fields [OF e] by (simp add: active_regime_def)
  have pos: "0 < wd_Re res"
    using h by (auto simp: calculate_boundary_layer_height_def split: if_splits)
  have t: "total_boundary_layer_thickness m =
       (if wd_Re res < 500000 then 4.91 * len / sqrt (wd_Re res)
        else 0.16 * len / wd_Re res powr (1 / 7))"
    using h pos by (auto simp: calculate_boundary_layer_height_def split: if_splits)
  show ?thesis
    unfolding res_def [symmetric] using reg t by (cases "wd_Re res < 500000") simp_all
qed

text \<open>
  The orchestrator returns when its first two stages return and the thickness, the wall
  distance and the growth rate are of moderate size.
\<close>

lemma cap_returns_from_stages:
  assumes e: "estimate_wall_distance u_inf rho mu len y_plus ''auto'' 500000 = Inr res"
    and h: "calculate_boundary_layer_height len (wd_Re res) = Inr tt"
    and b: "0 < tt" "tt \<le> 2 ^ 400" "1 / 2 ^ 400 \<le> wd_y res"
    and g: "2 \<le> growth_rate" "growth_rate \<le> 2 ^ 100"
  shows "\<exists>m. calculate_all_parameters len u_inf rho mu y_plus growth_rate = Inr m"
proof -
  obtain n where "calculate_prism_layer_cells tt (wd_y res) growth_rate = Inr n"
    using prism_cells_returns [OF b g] by blast
  then show ?thesis
    unfolding calculate_all_parameters_def using e h by simp
qed

lemma cap_laminar_example: "\<exists>m. calculate_all_parameters 1 1 1 1 1 2 = Inr m"
proof -
  define res where "res = \<lparr>wd_Re = 1, wd_Cf = 1.328, wd_tau_w = 1.328 * 0.5 * 1 * 1 ^ 2,
             wd_u_tau = sqrt (1.328 * 0.5 * 1 * 1 ^ 2 / 1),
             wd_y = 1 * 1 / (1 * sqrt (1.328 * 0.5 * 1 * 1 ^ 2 / 1)),
             wd_regime = ''laminar''\<rparr>"
  have e: "estimate_wall_distance 1 1 1 1 1 ''auto'' 500000 = Inr res"
    unfolding res_def by (rule ewd_below_threshold)
  have h: "calculate_boundary_layer_height 1 (wd_Re res) = Inr 4.91"
    using height_at_one by (simp add: res_def)
  have y: "1 / 2 ^ 400 \<le> wd_y res"
    using wall_distance_example_bound by (simp add: res_def)
  show ?thesis
    by (rule cap_returns_from_stages [OF e h _ _ y]) simp_all
qed

lemma log10_million: "log 10 1000000 = 6"
  using log_pow_cancel [of 10 6] by simp

lemma cap_turbulent_example: "\<exists>m. calculate_all_parameters 1 1 1000000 1 1 2 = Inr m"
proof -
  define cf :: real where "cf = 11.35 powr (- 2.3)"
  have cf0: "0 < cf"
    by (simp add: cf_def)
  have "(11.35::real) powr (- 2.3) \<le> 11.35 powr 0"
    by (intro powr_mono) simp_all
  then have cf1: "cf \<le> 1"
    by (simp add: cf_def)
  have c: "cf_schlichting 1000000 = Inr (PyFloat cf)"
    using cf_schlichting_float [of 1000000] by (simp add: log10_million cf_def)
  define res where "res = \<lparr>wd_Re = 1000000 * 1 * 1 / 1, wd_Cf = cf,
             wd_tau_w = cf * 0.5 * 1000000 * 1 ^ 2,
             wd_u_tau = sqrt (cf * 0.5 * 1000000 * 1 ^ 2 / 1000000),
             wd_y = 1 * 1 / (1000000 * sqrt (cf * 0.5 * 1000000 * 1 ^ 2 / 1000000)),
             wd_regime = active_regime ''auto'' (1000000 * 1 * 1 / 1) 500000\<rparr>"
  have e: "estimate_wall_distance 1 1000000 1 1 1 ''auto'' 500000 = Inr res"
    unfolding res_def
    by (rule ewd_success) (use c cf0 in \<open>simp_all add: active_regime_def\<close>)
  have p: "1 \<le> (1000000::real) powr (1 / 7)"
    by (intro ge_one_powr_ge_zero) simp_all
  have h: "calculate_boundary_layer_height 1 (wd_Re res) = Inr (0.16 * 1 / 1000000 powr (1 / 7))"
    by (simp add: res_def calculate_boundary_layer_height_def)
  have t0: "0 < 0.16 * 1 / (1000000::real) powr (1 / 7)"
    by simp
  have "0.16 * 1 / (1000000::real) powr (1 / 7) \<le> 0.16 * 1 / 1"
    using p by (intro divide_left_mono) simp_all
  then have t1: "0.16 * 1 / (1000000::real) powr (1 / 7) \<le> 2 ^ 400"
    by simp
  have "sqrt (cf * 0.5) \<le> sqrt 1"
    using cf1 by simp
  then have s1: "sqrt (cf * 0.5) \<le> 1" and s0: "0 < sqrt (cf * 0.5)"
    using cf0 by simp_all
  have "1 / 1000000 \<le> 1 / (1000000 * sqrt (cf * 0.5))"
    using s0 s1 by (intro divide_left_mono) simp_all
  moreover have "1 / 2 ^ 400 \<le> (1 / 1000000 :: real)"
    by simp
  ultimately have y: "1 / 2 ^ 400 \<le> wd_y res"
    by (simp add: res_def)
  show ?thesis
    using cap_returns_from_stages [OF e h t0 t1 y, of 2] by simp
qed

theorem orchestrator_regime_agrees_witness:
  "(\<exists>m. calculate_all_parameters 1 1 1 1 1 2 = Inr m \<and>
       wd_Re (estimation_details m) = 1 \<and>
       wd_regime (estimation_details m) = ''laminar'' \<and>
       total_boundary_layer_thickness m = 4.91) \<and>
   (\<exists>m. calculate_all_parameters 1 1 1000000 1 1 2 = Inr m \<and>
       wd_Re (estimation_details m) = 1000000 \<and>
       wd_regime (estimation_details m) = ''turbulent'' \<and>
       total_boundary_layer_thickness m = 0.16 * 1 / 1000000 powr (1 / 7))"
proof -
  obtain m where m: "calculate_all_parameters 1 1 1 1 1 2 = Inr m"
    using cap_laminar_example by blast
  have r: "wd_Re (estimation_details m) = 1"
    using cap_Inr_stages [OF m] ewd_Inr_fields [of 1 1 1 1 1 "''auto''" 500000 "estimation_details m"]
    by simp
  have "wd_regime (estimation_details m) = ''laminar'' \<and>
       total_boundary_layer_thickness m = 4.91"
    using orchestrator_regime_agrees [OF m] r by simp
  with m r have first: "\<exists>m. calculate_all_parameters 1 1 1 1 1 2 = Inr m \<and>
       wd_Re (estimation_details m) = 1 \<and>
       wd_regime (estimation_details m) = ''laminar'' \<and>
       total_boundary_layer_thickness m = 4.91"
    by blast
  obtain k where k: "calculate_all_parameters 1 1 1000000 1 1 2 = Inr k"
    using cap_turbulent_example by blast
  have s: "wd_Re (estimation_details k) = 1000000"
    using cap_Inr_stages [OF k]
      ewd_Inr_fields [of 1 1000000 1 1 1 "''auto''" 500000 "estimation_details k"]
    by simp
  have "wd_regime (estimation_details k) = ''turbulent'' \<and>
       total_boundary_layer_thickness k = 0.16 * 1 / 1000000 powr (1 / 7)"
    using orchestrator_regime_agrees [OF k] s by simp
  with k s have "\<exists>m. calculate_all_parameters 1 1 1000000 1 1 2 = Inr m \<and>
       wd_Re (estimation_details m) = 1000000 \<and>
       wd_regime (estimation_details m) = ''turbulent'' \<and>
       total_boundary_layer_thickness m = 0.16 * 1 / 1000000 powr (1 / 7)"
    by blast
  with first show ?thesis by blast
qed

end
